theory Spec2Isabelle
  imports Complex_Main "HOL-Library.Multiset"
begin

section \<open>Conventions of the embedding\<close>

text \<open>
  The development embeds the query engine (package \<open>engine\<close>) and the schema
  discovery and refinement code (package \<open>schema\<close>) of Spektr.

  \<^item> A Go \<open>float64\<close> is modelled by a real number: sums, quotients and comparisons are
    the exact ones. Rounding, infinities and NaN are outside the model.
  \<^item> A Go \<open>string\<close> is a list of bytes (\<open>string\<close>).
  \<^item> A Go \<open>map\<close> that is only looked up is a partial function; a map that is ranged over
    or measured with \<open>len\<close> is an association list read through \<open>map_of\<close>, whose keys are
    \<open>map_keys\<close>.
  \<^item> A length or a slice index is a natural number.
  \<^item> Functions of the Go standard library whose behaviour depends on Unicode tables or
    on the runtime (\<open>strings.ToLower\<close>, the order in which \<open>range\<close> visits a map, number
    formatting) are fields of the record \<open>env\<close> that the embedded functions take as
    their first argument.
\<close>

type_synonym float64 = real

definition map_keys :: "('k \<times> 'v) list \<Rightarrow> 'k list" where
  "map_keys m = remdups (map fst m)"

section \<open>Engine types\<close>

text \<open>\<open>Record\<close>: one data row. Reading a missing key of a Go map yields the zero value.\<close>

record Record =
  Dimensions :: "string \<rightharpoonup> string"
  Measures :: "string \<rightharpoonup> float64"

definition str_at :: "('k \<rightharpoonup> string) \<Rightarrow> 'k \<Rightarrow> string" where
  "str_at m k = (case m k of None \<Rightarrow> [] | Some v \<Rightarrow> v)"

definition num_at :: "('k \<rightharpoonup> float64) \<Rightarrow> 'k \<Rightarrow> float64" where
  "num_at m k = (case m k of None \<Rightarrow> 0 | Some v \<Rightarrow> v)"

text \<open>
  \<open>RecordView\<close> is an interface: a value of it is the record of its methods, so any
  implementation a consumer supplies is covered. \<open>DimensionKeys\<close> and \<open>MeasureKeys\<close>
  are read by the list-table builder only and are left out.
\<close>

record RecordView =
  Len :: nat
  Dimension :: "nat \<Rightarrow> string \<Rightarrow> string"
  Measure :: "nat \<Rightarrow> string \<Rightarrow> float64"

text \<open>\<open>Filters\<close>: per-dimension allow-lists.\<close>

record Filters =
  FDimensions :: "(string \<times> string list) list"

section \<open>View implementations\<close>

definition NewSliceView :: "Record list \<Rightarrow> RecordView" where
  "NewSliceView records =
     \<lparr> Len = length records,
       Dimension = (\<lambda>i key. if i \<ge> length records then [] else str_at (Dimensions (records ! i)) key),
       Measure = (\<lambda>i key. if i \<ge> length records then 0 else num_at (Measures (records ! i)) key) \<rparr>"

definition newSubView :: "RecordView \<Rightarrow> nat list \<Rightarrow> RecordView" where
  "newSubView parent indices =
     \<lparr> Len = length indices,
       Dimension = (\<lambda>i key. if i \<ge> length indices then [] else Dimension parent (indices ! i) key),
       Measure = (\<lambda>i key. if i \<ge> length indices then 0 else Measure parent (indices ! i) key) \<rparr>"

definition newConcatView :: "RecordView \<Rightarrow> RecordView \<Rightarrow> RecordView" where
  "newConcatView a b =
     \<lparr> Len = Len a + Len b,
       Dimension = (\<lambda>i key. if i < Len a then Dimension a i key else Dimension b (i - Len a) key),
       Measure = (\<lambda>i key. if i < Len a then Measure a i key else Measure b (i - Len a) key) \<rparr>"

definition newCurrencyView ::
  "RecordView \<Rightarrow> string \<Rightarrow> string \<Rightarrow> string \<Rightarrow> (string \<times> float64) list \<Rightarrow> RecordView" where
  "newCurrencyView parent measureKey dimension baseCurrency rates =
     \<lparr> Len = Len parent,
       Dimension = (\<lambda>i key.
         if key = dimension then
           (let orig = Dimension parent i key in
            if orig \<noteq> baseCurrency \<and> map_of rates orig \<noteq> None then baseCurrency else orig)
         else Dimension parent i key),
       Measure = (\<lambda>i key.
         let val = Measure parent i key in
         if key = measureKey then
           (let currency = Dimension parent i dimension in
            if currency \<noteq> baseCurrency then
              (case map_of rates currency of
                 Some rate \<Rightarrow> if rate > 0 then val * rate else val
               | None \<Rightarrow> val)
            else val)
         else val) \<rparr>"

text \<open>\<open>DomainView\<close>: typed rows read through registered accessor functions.\<close>

definition DomainView ::
  "'t list \<Rightarrow> (string \<rightharpoonup> ('t \<Rightarrow> string)) \<Rightarrow> (string \<rightharpoonup> ('t \<Rightarrow> float64)) \<Rightarrow> RecordView" where
  "DomainView data dims meas =
     \<lparr> Len = length data,
       Dimension = (\<lambda>i key. if i \<ge> length data then []
                      else (case dims key of Some fn \<Rightarrow> fn (data ! i) | None \<Rightarrow> [])),
       Measure = (\<lambda>i key. if i \<ge> length data then 0
                      else (case meas key of Some fn \<Rightarrow> fn (data ! i) | None \<Rightarrow> 0)) \<rparr>"

section \<open>Filters\<close>

definition HasFilter :: "Filters \<Rightarrow> string \<Rightarrow> bool" where
  "HasFilter f dimension =
     (case map_of (FDimensions f) dimension of None \<Rightarrow> False | Some vals \<Rightarrow> length vals > 0)"

definition IsEmpty :: "Filters \<Rightarrow> bool" where
  "IsEmpty f =
     list_all (\<lambda>k. case map_of (FDimensions f) k of None \<Rightarrow> True | Some vals \<Rightarrow> \<not> length vals > 0)
       (map_keys (FDimensions f))"

definition toLowerSet :: "(string \<Rightarrow> string) \<Rightarrow> string list \<Rightarrow> string set" where
  "toLowerSet lower items = set (map lower items)"

text \<open>
  \<open>ApplyFilters\<close>, with \<open>strings.ToLower\<close> as the parameter \<open>lower\<close>. The inner loop
  over \<open>sets\<close> leaves \<open>pass\<close> true exactly when every set contains the record's value,
  whatever the order of the visit.
\<close>

definition ApplyFilters :: "(string \<Rightarrow> string) \<Rightarrow> RecordView \<Rightarrow> Filters \<Rightarrow> RecordView" where
  "ApplyFilters lower view filters =
     (if IsEmpty filters then view
      else
        let sets = concat (map (\<lambda>dim. case map_of (FDimensions filters) dim of
                                   None \<Rightarrow> []
                                 | Some allowed \<Rightarrow>
                                     if length allowed > 0 then [(dim, toLowerSet lower allowed)] else [])
                             (map_keys (FDimensions filters)))
        in if length sets = 0 then view
           else
             let n = Len view;
                 indices = filter (\<lambda>i. list_all (\<lambda>(dim, s). lower (Dimension view i dim) \<in> s) sets) [0..<n]
             in newSubView view indices)"

text \<open>An ASCII instance of \<open>strings.ToLower\<close>, used to evaluate examples.\<close>

definition ascii_lower_char :: "char \<Rightarrow> char" where
  "ascii_lower_char c =
     (let n = (of_char c :: nat) in if 65 \<le> n \<and> n \<le> 90 then char_of (n + 32) else c)"

definition ascii_lower :: "string \<Rightarrow> string" where
  "ascii_lower s = map ascii_lower_char s"

definition demo_records :: "Record list" where
  "demo_records =
     [ \<lparr> Dimensions = [''category'' \<mapsto> ''Expense'', ''currency'' \<mapsto> ''SGD'', ''month'' \<mapsto> ''Jan-2026''],
         Measures = [''amount'' \<mapsto> 1000] \<rparr>,
       \<lparr> Dimensions = [''category'' \<mapsto> ''Income'', ''currency'' \<mapsto> ''SGD'', ''month'' \<mapsto> ''Jan-2026''],
         Measures = [''amount'' \<mapsto> 5000] \<rparr>,
       \<lparr> Dimensions = [''category'' \<mapsto> ''EXPENSE'', ''currency'' \<mapsto> ''SGD'', ''month'' \<mapsto> ''Feb-2026''],
         Measures = [''amount'' \<mapsto> 1200] \<rparr> ]"

definition demo_filters :: Filters where
  "demo_filters = \<lparr> FDimensions = [(''category'', [''expense''])] \<rparr>"

section \<open>Query, group and result types\<close>

record QuerySpec =
  Intent :: string
  QFilters :: Filters
  CompareFilters :: "Filters option"
  Aggregation :: string
  QMeasure :: string
  GroupBy :: "string list"
  SortBy :: string
  Limit :: int
  Visualize :: string
  Title :: string
  QReply :: string
  Confidence :: float64

text \<open>\<open>Group\<close>: an aggregated partition, with the sub-view of its records.\<close>

datatype Group =
  Group (Key: string) (Label: string) (Value: float64) (Count: nat)
        (SubGroups: "Group list") (View: RecordView)

record GrowthData =
  EarliestValue :: float64
  LatestValue :: float64
  EarliestPeriod :: string
  LatestPeriod :: string
  ChangeAmount :: float64
  ChangePercent :: float64
  Direction :: string

record RatioData =
  NumeratorTotal :: float64
  DenominatorTotal :: float64
  Percentage :: float64
  NumeratorLabel :: string
  DenominatorLabel :: string

record TextData =
  TextValue :: string
  RawValue :: float64
  Unit :: string
  Period :: string
  TextCount :: nat
  Growth :: "GrowthData option"
  Ratio :: "RatioData option"

section \<open>Aggregators\<close>

definition SumMeasure :: "RecordView \<Rightarrow> string \<Rightarrow> float64" where
  "SumMeasure view measureKey =
     fold (\<lambda>i total. total + Measure view i measureKey) [0..<Len view] 0"

definition AvgMeasure :: "RecordView \<Rightarrow> string \<Rightarrow> float64" where
  "AvgMeasure view measureKey =
     (let n = Len view in
      if n = 0 then 0 else SumMeasure view measureKey / real n)"

text \<open>
  \<open>MaxMeasure\<close> and \<open>MinMeasure\<close>: the pair \<open>(m, found)\<close> of the loop is an option, the
  initial infinity never being read.
\<close>

definition MaxMeasure :: "RecordView \<Rightarrow> string \<Rightarrow> float64" where
  "MaxMeasure view measureKey =
     (let n = Len view in
      if n = 0 then 0
      else case fold (\<lambda>i acc. let v = Measure view i measureKey in
                        (case acc of None \<Rightarrow> Some v
                         | Some m \<Rightarrow> if v > m then Some v else Some m)) [0..<n] None of
             None \<Rightarrow> 0
           | Some m \<Rightarrow> m)"

definition MinMeasure :: "RecordView \<Rightarrow> string \<Rightarrow> float64" where
  "MinMeasure view measureKey =
     (let n = Len view in
      if n = 0 then 0
      else case fold (\<lambda>i acc. let v = Measure view i measureKey in
                        (case acc of None \<Rightarrow> Some v
                         | Some m \<Rightarrow> if v < m then Some v else Some m)) [0..<n] None of
             None \<Rightarrow> 0
           | Some m \<Rightarrow> m)"

subsection \<open>Month keys\<close>

text \<open>
  \<open>time.Parse("Jan-2006", s)\<close> succeeds exactly on a three-letter English month
  abbreviation in any letter case, a hyphen and four decimal digits, with nothing after
  them; \<open>time.Parse("2006", s)\<close> exactly on four decimal digits.
\<close>

definition shortMonthNames :: "string list" where
  "shortMonthNames = [''jan'', ''feb'', ''mar'', ''apr'', ''may'', ''jun'',
                      ''jul'', ''aug'', ''sep'', ''oct'', ''nov'', ''dec'']"

definition digit_val :: "char \<Rightarrow> nat option" where
  "digit_val c = (let n = (of_char c :: nat) in if 48 \<le> n \<and> n \<le> 57 then Some (n - 48) else None)"

definition parse_year4 :: "string \<Rightarrow> nat option" where
  "parse_year4 s =
     (case map digit_val s of
        [Some a, Some b, Some c, Some d] \<Rightarrow> Some (a * 1000 + b * 100 + c * 10 + d)
      | _ \<Rightarrow> None)"

definition month_index :: "string \<Rightarrow> nat option" where
  "month_index s =
     (case filter (\<lambda>i. shortMonthNames ! i = ascii_lower s) [0..<12] of
        [] \<Rightarrow> None
      | i # _ \<Rightarrow> Some (i + 1))"

definition parse_month_year :: "string \<Rightarrow> (nat \<times> nat) option" where
  "parse_month_year s =
     (if length s = 8 \<and> s ! 3 = CHR ''-'' then
        (case (month_index (take 3 s), parse_year4 (drop 4 s)) of
           (Some m, Some y) \<Rightarrow> Some (y, m)
         | _ \<Rightarrow> None)
      else None)"

definition ParseMonthOrder :: "string \<Rightarrow> int" where
  "ParseMonthOrder monthStr =
     (case parse_month_year monthStr of
        None \<Rightarrow> 0
      | Some (y, m) \<Rightarrow> int y * 100 + int m)"

definition parseSortableDate :: "string \<Rightarrow> int" where
  "parseSortableDate key =
     (let v = ParseMonthOrder key in
      if v > 0 then v
      else case parse_year4 key of
             Some y \<Rightarrow> int y * 100
           | None \<Rightarrow> 0)"

subsection \<open>Grouping\<close>

fun decimal :: "nat \<Rightarrow> string" where
  "decimal n = (if n < 10 then [char_of (48 + n)] else decimal (n div 10) @ [char_of (48 + n mod 10)])"

text \<open>\<open>strings.Split(s, "-")\<close>: the pieces of \<open>s\<close> between hyphens.\<close>

fun split_hyphen :: "string \<Rightarrow> string list" where
  "split_hyphen [] = [[]]"
| "split_hyphen (c # s) =
     (if c = CHR ''-'' then [] # split_hyphen s
      else (case split_hyphen s of p # ps \<Rightarrow> (c # p) # ps | [] \<Rightarrow> [[c]]))"

definition getDimensionValue :: "RecordView \<Rightarrow> nat \<Rightarrow> string \<Rightarrow> string" where
  "getDimensionValue view i dimension =
     (if dimension = ''year'' then
        (let month = Dimension view i ''month''; parts = split_hyphen month in
         if length parts = 2 then parts ! 1
         else (case parse_month_year month of
                 Some (y, m) \<Rightarrow> decimal y
               | None \<Rightarrow> Dimension view i dimension))
      else Dimension view i dimension)"

definition map_put :: "'k \<Rightarrow> 'v \<Rightarrow> ('k \<times> 'v) list \<Rightarrow> ('k \<times> 'v) list" where
  "map_put k v m =
     (if map_of m k = None then m @ [(k, v)]
      else map (\<lambda>(k', v'). if k' = k then (k', v) else (k', v')) m)"

definition groupBySingle :: "RecordView \<Rightarrow> string \<Rightarrow> Group list" where
  "groupBySingle view dimension =
     (let (grouped, order) =
            fold (\<lambda>i (grouped, order).
                    let key = getDimensionValue view i dimension in
                    (case map_of grouped key of
                       None \<Rightarrow> (map_put key [i] grouped, order @ [key])
                     | Some idxs \<Rightarrow> (map_put key (idxs @ [i]) grouped, order)))
                 [0..<Len view] ([], [])
      in map (\<lambda>key. Group key key 0 0 []
                      (newSubView view (case map_of grouped key of None \<Rightarrow> [] | Some idxs \<Rightarrow> idxs)))
             order)"

text \<open>
  \<open>groupByMulti\<close>. On an empty list the source indexes \<open>dimensions[0]\<close> and panics;
  \<open>GroupAndAggregate\<close>, the only caller, passes two keys or more.
\<close>

fun groupByMulti :: "RecordView \<Rightarrow> string list \<Rightarrow> Group list option" where
  "groupByMulti view [] = None"
| "groupByMulti view [d0] = Some (groupBySingle view d0)"
| "groupByMulti view (d0 # d1 # ds) =
     Some (map (\<lambda>g. Group (Key g) (Label g) (Value g) (Count g)
                       (groupBySingle (View g) d1) (View g))
               (groupBySingle view d0))"

subsection \<open>Aggregation\<close>

definition aggregateGroup :: "Group \<Rightarrow> string \<Rightarrow> string \<Rightarrow> Group" where
  "aggregateGroup grp measureKey aggregation =
     (let cnt = Len (View grp);
          setValue = (\<lambda>v. Group (Key grp) (Label grp) v cnt (SubGroups grp) (View grp))
      in if cnt = 0 then setValue (Value grp)
         else if aggregation = ''sum'' then setValue (SumMeasure (View grp) measureKey)
         else if aggregation = ''count'' then setValue (real cnt)
         else if aggregation = ''avg'' then setValue (AvgMeasure (View grp) measureKey)
         else if aggregation = ''max'' then setValue (MaxMeasure (View grp) measureKey)
         else if aggregation = ''min'' then setValue (MinMeasure (View grp) measureKey)
         else if aggregation = ''list'' then setValue (SumMeasure (View grp) measureKey)
         else if aggregation = ''none'' then setValue (Value grp)
         else setValue (SumMeasure (View grp) measureKey))"

subsection \<open>Sorting\<close>

text \<open>
  \<open>sort.Slice\<close> as the insertion sort the Go library runs on a short slice: each element
  in turn moves left past the elements it is less than. On a longer slice the library
  leaves the order of elements that compare equal unspecified.
\<close>

fun insert_sorted :: "('a \<Rightarrow> 'a \<Rightarrow> bool) \<Rightarrow> 'a \<Rightarrow> 'a list \<Rightarrow> 'a list" where
  "insert_sorted lessFn x [] = [x]"
| "insert_sorted lessFn x (y # ys) =
     (if lessFn x y then x # y # ys else y # insert_sorted lessFn x ys)"

definition sort_Slice :: "('a \<Rightarrow> 'a \<Rightarrow> bool) \<Rightarrow> 'a list \<Rightarrow> 'a list" where
  "sort_Slice lessFn xs = fold (insert_sorted lessFn) xs []"

text \<open>Go compares strings byte by byte.\<close>

fun str_less :: "string \<Rightarrow> string \<Rightarrow> bool" where
  "str_less [] [] = False"
| "str_less [] (y # ys) = True"
| "str_less (x # xs) [] = False"
| "str_less (x # xs) (y # ys) =
     ((of_char x :: nat) < of_char y \<or> (x = y \<and> str_less xs ys))"

definition SortGroups :: "(string \<Rightarrow> string) \<Rightarrow> Group list \<Rightarrow> string \<Rightarrow> Group list" where
  "SortGroups lower groups sortBy =
     (if sortBy = ''value_desc'' \<or> sortBy = ''amount_desc'' then
        sort_Slice (\<lambda>a b. Value a > Value b) groups
      else if sortBy = ''value_asc'' \<or> sortBy = ''amount_asc'' then
        sort_Slice (\<lambda>a b. Value a < Value b) groups
      else if sortBy = ''chronological'' \<or> sortBy = ''date_asc'' then
        sort_Slice (\<lambda>a b. parseSortableDate (Key a) < parseSortableDate (Key b)) groups
      else if sortBy = ''reverse_chronological'' \<or> sortBy = ''date_desc'' then
        sort_Slice (\<lambda>a b. parseSortableDate (Key a) > parseSortableDate (Key b)) groups
      else if sortBy = ''label_asc'' \<or> sortBy = ''alpha_asc'' then
        sort_Slice (\<lambda>a b. str_less (lower (Key a)) (lower (Key b))) groups
      else if sortBy = ''label_desc'' then
        sort_Slice (\<lambda>a b. str_less (lower (Key b)) (lower (Key a))) groups
      else groups)"

subsection \<open>The aggregation pipeline\<close>

definition GroupAndAggregate ::
  "(string \<Rightarrow> string) \<Rightarrow> RecordView \<Rightarrow> string list \<Rightarrow> string \<Rightarrow> string \<Rightarrow> string \<Rightarrow> int \<Rightarrow> Group list" where
  "GroupAndAggregate lower view groupBy measureKey aggregation sortBy limit =
     (if Len view = 0 then []
      else
        let groups0 =
              (if length groupBy = 0 then [Group ''all'' ''Total'' 0 0 [] view]
               else if length groupBy = 1 then groupBySingle view (groupBy ! 0)
               else (case groupByMulti view groupBy of Some gs \<Rightarrow> gs | None \<Rightarrow> []));
            groups1 =
              map (\<lambda>g. let g' = aggregateGroup g measureKey aggregation in
                        Group (Key g') (Label g') (Value g') (Count g')
                          (map (\<lambda>s. aggregateGroup s measureKey aggregation) (SubGroups g'))
                          (View g'))
                  groups0;
            groups2 = SortGroups lower groups1 sortBy
        in if limit > 0 \<and> int (length groups2) > limit then take (nat limit) groups2
           else groups2)"

section \<open>Library and presentation callees\<close>

text \<open>
  The record \<open>env\<close> holds what the engine calls and this development does not embed:
  \<^item> \<open>ToLower\<close>: \<open>strings.ToLower\<close>;
  \<^item> \<open>rangeOrder\<close>: the order in which a \<open>range\<close> statement visits a map with the given
    keys, which the Go runtime leaves unspecified;
  \<^item> \<open>Sprintf_1f\<close>: \<open>fmt.Sprintf("%.1f", x)\<close>;
  \<^item> \<open>FormatCurrency\<close>, \<open>FormatInt\<close>, \<open>BuildChart\<close>, \<open>BuildTable\<close>, \<open>ResolvePlaceholders\<close>:
    the formatting helpers, the chart and table builders and the reply-template resolver.
  Writing to the log is not modelled.
\<close>

record ('chart, 'table) env =
  ToLower :: "string \<Rightarrow> string"
  rangeOrder :: "string list \<Rightarrow> string list"
  Sprintf_1f :: "float64 \<Rightarrow> string"
  FormatCurrency :: "float64 \<Rightarrow> string \<Rightarrow> string"
  FormatInt :: "int \<Rightarrow> string"
  BuildChart :: "QuerySpec \<Rightarrow> Group list \<Rightarrow> 'chart option"
  BuildTable :: "QuerySpec \<Rightarrow> Group list \<Rightarrow> RecordView \<Rightarrow> string \<Rightarrow> string \<Rightarrow> 'table"
  ResolvePlaceholders :: "string \<Rightarrow> Group list \<Rightarrow> RecordView \<Rightarrow> string \<Rightarrow> string \<Rightarrow> string"

text \<open>The UTF-8 bytes of the non-ASCII characters in the engine's string literals.\<close>

definition en_dash :: string where "en_dash = [CHR 0xE2, CHR 0x80, CHR 0x93]"
definition em_dash :: string where "em_dash = [CHR 0xE2, CHR 0x80, CHR 0x94]"
definition arrow_up :: string where "arrow_up = [CHR 0xE2, CHR 0x86, CHR 0x91]"
definition arrow_right :: string where "arrow_right = [CHR 0xE2, CHR 0x86, CHR 0x92]"
definition arrow_down :: string where "arrow_down = [CHR 0xE2, CHR 0x86, CHR 0x93]"

text \<open>\<open>strings.Join\<close>.\<close>

fun Join :: "string list \<Rightarrow> string \<Rightarrow> string" where
  "Join [] sep = []"
| "Join [x] sep = x"
| "Join (x # y # ys) sep = x @ sep @ Join (y # ys) sep"

text \<open>
  \<open>strings.ReplaceAll\<close> for a non-empty \<open>old\<close> (every call site passes a literal
  placeholder): non-overlapping occurrences, leftmost first. \<open>skip\<close> counts the bytes of
  a matched occurrence still to be passed over.
\<close>

fun replace_from :: "nat \<Rightarrow> string \<Rightarrow> string \<Rightarrow> string \<Rightarrow> string" where
  "replace_from skip old new [] = []"
| "replace_from skip old new (c # s) =
     (if skip > 0 then replace_from (skip - 1) old new s
      else if take (length old) (c # s) = old then new @ replace_from (length old - 1) old new s
      else c # replace_from 0 old new s)"

definition ReplaceAll :: "string \<Rightarrow> string \<Rightarrow> string \<Rightarrow> string" where
  "ReplaceAll s old new = replace_from 0 old new s"

section \<open>Text builder\<close>

text \<open>The distinct non-empty values of the \<open>month\<close> dimension, in first-seen order.\<close>

definition month_keys :: "RecordView \<Rightarrow> string list" where
  "month_keys view =
     fold (\<lambda>i months. let m = Dimension view i ''month'' in
             if m \<noteq> [] \<and> m \<notin> set months then months @ [m] else months)
          [0..<Len view] []"

definition DerivePeriod :: "('chart, 'table) env \<Rightarrow> RecordView \<Rightarrow> string" where
  "DerivePeriod env view =
     (if Len view = 0 then ''No data''
      else
        let months = month_keys view in
        if length months = 0 then ''All time''
        else if length months = 1 then months ! 0
        else
          let (earliest, earliestOrder, latest, latestOrder, first) =
                fold (\<lambda>m (earliest, earliestOrder, latest, latestOrder, first).
                        let ord = ParseMonthOrder m;
                            (earliest', earliestOrder') =
                               (if first \<or> ord < earliestOrder then (m, ord) else (earliest, earliestOrder));
                            (latest', latestOrder') =
                               (if first \<or> ord > latestOrder then (m, ord) else (latest, latestOrder))
                        in (earliest', earliestOrder', latest', latestOrder', False))
                     (rangeOrder env months) ([], 0, [], 0, True)
          in earliest @ '' '' @ en_dash @ '' '' @ latest)"

text \<open>The local type \<open>entry\<close> of \<open>BuildGrowthText\<close>.\<close>

record entry =
  Month :: string
  Order :: int
  Total :: float64

text \<open>The map \<open>monthTotals\<close>: the sum of the measure per non-empty month value.\<close>

definition monthTotals_of :: "RecordView \<Rightarrow> string \<Rightarrow> (string \<times> float64) list" where
  "monthTotals_of view measureKey =
     fold (\<lambda>i monthTotals. let month = Dimension view i ''month'' in
             if month = [] then monthTotals
             else map_put month (num_at (map_of monthTotals) month + Measure view i measureKey) monthTotals)
          [0..<Len view] []"

definition BuildGrowthText :: "('chart, 'table) env \<Rightarrow> RecordView \<Rightarrow> string \<Rightarrow> string \<Rightarrow> TextData" where
  "BuildGrowthText env view measureKey unit =
     (if Len view = 0 then
        \<lparr> TextValue = ''No data'', RawValue = 0, Unit = unit, Period = ''No data'', TextCount = 0,
          Growth = None, Ratio = None \<rparr>
      else
        let monthTotals = monthTotals_of view measureKey in
        if length monthTotals < 2 then
          (let total = SumMeasure view measureKey;
               period = DerivePeriod env view
           in \<lparr> TextValue = FormatCurrency env total unit, RawValue = total, Unit = unit,
                Period = period, TextCount = Len view,
                Growth = Some \<lparr> EarliestValue = total, LatestValue = total,
                                EarliestPeriod = period, LatestPeriod = period,
                                ChangeAmount = 0, ChangePercent = 0,
                                Direction = ''insufficient data'' \<rparr>,
                Ratio = None \<rparr>)
        else
          let entries0 = map (\<lambda>m. \<lparr> Month = m, Order = ParseMonthOrder m,
                                     Total = num_at (map_of monthTotals) m \<rparr>)
                             (rangeOrder env (map fst monthTotals));
              entries = sort_Slice (\<lambda>a b. Order a < Order b) entries0;
              earliest = entries ! 0;
              latest = entries ! (length entries - 1);
              changeAmount = Total latest - Total earliest;
              changePercent = (if Total earliest \<noteq> 0 then (changeAmount / Total earliest) * 100 else 0);
              direction = (if changePercent > 0.5 then ''increased''
                           else if changePercent < - 0.5 then ''decreased''
                           else ''unchanged'');
              absPercent = (if changePercent < 0 then - changePercent else changePercent);
              displayValue =
                (if direction = ''increased'' then arrow_up @ '' '' @ Sprintf_1f env absPercent @ ''%''
                 else if direction = ''decreased'' then arrow_down @ '' '' @ Sprintf_1f env absPercent @ ''%''
                 else arrow_right @ '' No change'')
          in \<lparr> TextValue = displayValue, RawValue = changePercent, Unit = unit,
               Period = Month earliest @ '' '' @ en_dash @ '' '' @ Month latest,
               TextCount = Len view,
               Growth = Some \<lparr> EarliestValue = Total earliest, LatestValue = Total latest,
                               EarliestPeriod = Month earliest, LatestPeriod = Month latest,
                               ChangeAmount = changeAmount, ChangePercent = changePercent,
                               Direction = direction \<rparr>,
               Ratio = None \<rparr>)"

definition BuildText ::
  "('chart, 'table) env \<Rightarrow> QuerySpec \<Rightarrow> Group list \<Rightarrow> RecordView \<Rightarrow> string \<Rightarrow> string \<Rightarrow> TextData" where
  "BuildText env spec groups view measureKey unit =
     (if Len view = 0 then
        \<lparr> TextValue = ''0'', RawValue = 0, Unit = unit, Period = DerivePeriod env view, TextCount = 0,
          Growth = None, Ratio = None \<rparr>
      else if Aggregation spec = ''growth'' then BuildGrowthText env view measureKey unit
      else
        let val = (if Aggregation spec = ''sum'' then SumMeasure view measureKey
                   else if Aggregation spec = ''count'' then real (Len view)
                   else if Aggregation spec = ''avg'' then AvgMeasure view measureKey
                   else if Aggregation spec = ''max'' then MaxMeasure view measureKey
                   else if Aggregation spec = ''min'' then MinMeasure view measureKey
                   else SumMeasure view measureKey);
            formatted = (if Aggregation spec = ''count'' then FormatInt env \<lfloor>val\<rfloor>
                         else FormatCurrency env val unit)
        in \<lparr> TextValue = formatted, RawValue = val, Unit = unit, Period = DerivePeriod env view,
             TextCount = Len view, Growth = None, Ratio = None \<rparr>)"

section \<open>Engine options\<close>

record config =
  BaseCurrency :: string
  CurrencyDimension :: string
  ExchangeRates :: "(string \<times> float64) list"
  DefaultMeasure :: string

type_synonym Option = "config \<Rightarrow> config"

definition WithCurrency :: "string \<Rightarrow> string \<Rightarrow> (string \<times> float64) list \<Rightarrow> Option" where
  "WithCurrency baseCurrency dimension rates =
     (\<lambda>c. c\<lparr> BaseCurrency := baseCurrency, CurrencyDimension := dimension, ExchangeRates := rates \<rparr>)"

definition WithDefaultMeasure :: "string \<Rightarrow> Option" where
  "WithDefaultMeasure measureKey = (\<lambda>c. c\<lparr> DefaultMeasure := measureKey \<rparr>)"

definition applyOptions :: "Option list \<Rightarrow> config" where
  "applyOptions opts =
     fold (\<lambda>opt cfg. opt cfg) opts
       \<lparr> BaseCurrency = [], CurrencyDimension = [], ExchangeRates = [], DefaultMeasure = ''amount'' \<rparr>"

section \<open>Executor\<close>

text \<open>
  \<open>Result\<close>, with the fields \<open>Execute\<close> assigns. A Go error is a message; a run-time panic
  is an error value as well.
\<close>

record ('chart, 'table) Result =
  Success :: bool
  Type :: string
  Reply :: string
  ChartConfig :: "'chart option"
  TableData :: "'table option"
  Data :: "TextData option"
  DisplayUnit :: string
  ShouldConvert :: bool

type_synonym error = string

definition detectDisplayCurrency :: "RecordView \<Rightarrow> string \<Rightarrow> string \<Rightarrow> string \<times> bool" where
  "detectDisplayCurrency view currencyDimension baseCurrency =
     (if Len view = 0 then (baseCurrency, False)
      else
        let currencies = fold (\<lambda>i cs. let c = Dimension view i currencyDimension in
                                  if c \<noteq> [] \<and> c \<notin> set cs then cs @ [c] else cs)
                              [0..<Len view] []
        in if length currencies = 1 then (currencies ! 0, False)
           else (baseCurrency, True))"

definition inferUnit :: "RecordView \<Rightarrow> string \<Rightarrow> string" where
  "inferUnit view currencyDimension =
     (if currencyDimension = [] \<or> Len view = 0 then []
      else Dimension view 0 currencyDimension)"

definition buildFilterLabel :: "('chart, 'table) env \<Rightarrow> Filters option \<Rightarrow> string" where
  "buildFilterLabel env f =
     (case f of
        None \<Rightarrow> ''All''
      | Some fl \<Rightarrow>
          if IsEmpty fl then ''All''
          else
            let parts = concat (map (\<lambda>k. case map_of (FDimensions fl) k of
                                            None \<Rightarrow> []
                                          | Some vals \<Rightarrow> if length vals > 0 then [Join vals '', ''] else [])
                                    (rangeOrder env (map_keys (FDimensions fl))))
            in if length parts = 0 then ''All records''
               else Join parts ('' '' @ em_dash @ '' ''))"

definition executeRatio ::
  "('chart, 'table) env \<Rightarrow> QuerySpec \<Rightarrow> RecordView \<Rightarrow> string \<Rightarrow> config
     \<Rightarrow> error + ('chart, 'table) Result" where
  "executeRatio env spec view measureKey cfg =
     (case CompareFilters spec of
        None \<Rightarrow> Inl ''invalid memory address or nil pointer dereference''
      | Some compareFilters \<Rightarrow>
          let denominator = ApplyFilters (ToLower env) view (QFilters spec);
              numerator = ApplyFilters (ToLower env) view compareFilters;
              denomSum = SumMeasure denominator measureKey;
              numSum = SumMeasure numerator measureKey;
              pct = (if denomSum > 0 then (numSum / denomSum) * 100 else 0);
              unit = (if BaseCurrency cfg = [] then inferUnit denominator (CurrencyDimension cfg)
                      else BaseCurrency cfg);
              numLabel = buildFilterLabel env (CompareFilters spec);
              denomLabel = buildFilterLabel env (Some (QFilters spec));
              displayValue = Sprintf_1f env pct @ ''%'';
              combined = newConcatView denominator numerator;
              period = DerivePeriod env combined;
              textData = \<lparr> TextValue = displayValue, RawValue = pct, Unit = unit, Period = period,
                           TextCount = Len numerator + Len denominator, Growth = None,
                           Ratio = Some \<lparr> NumeratorTotal = numSum, DenominatorTotal = denomSum,
                                          Percentage = pct, NumeratorLabel = numLabel,
                                          DenominatorLabel = denomLabel \<rparr> \<rparr>;
              replacements =
                [ (''{ratio_percent}'', displayValue),
                  (''{numerator_total}'', FormatCurrency env numSum unit),
                  (''{denominator_total}'', FormatCurrency env denomSum unit),
                  (''{numerator_label}'', numLabel),
                  (''{denominator_label}'', denomLabel),
                  (''{period}'', period),
                  (''{total}'', FormatCurrency env numSum unit) ];
              reply = fold (\<lambda>k reply. ReplaceAll reply k (str_at (map_of replacements) k))
                           (rangeOrder env (map_keys replacements)) (QReply spec)
          in Inr \<lparr> Success = True, Type = ''text'', Reply = reply, ChartConfig = None,
                   TableData = None, Data = Some textData, DisplayUnit = unit,
                   ShouldConvert = False \<rparr>)"

text \<open>
  Step 2 of \<open>Execute\<close> (currency normalization): from the filtered view to the view the
  rest of the pipeline reads, the display unit and the conversion flag.
\<close>

definition Execute_currency :: "config \<Rightarrow> string \<Rightarrow> RecordView \<Rightarrow> RecordView \<times> string \<times> bool" where
  "Execute_currency cfg measureKey filtered =
     (let (filtered1, displayUnit1, needsConversion) =
            (if BaseCurrency cfg \<noteq> [] \<and> CurrencyDimension cfg \<noteq> [] \<and> length (ExchangeRates cfg) > 0 then
               (let (displayUnit, needsConversion) =
                      detectDisplayCurrency filtered (CurrencyDimension cfg) (BaseCurrency cfg)
                in if needsConversion then
                     (newCurrencyView filtered measureKey (CurrencyDimension cfg) (BaseCurrency cfg)
                        (ExchangeRates cfg),
                      BaseCurrency cfg, needsConversion)
                   else (filtered, displayUnit, needsConversion))
             else (filtered, BaseCurrency cfg, False));
          displayUnit2 = (if displayUnit1 = [] then inferUnit filtered1 (CurrencyDimension cfg)
                          else displayUnit1)
      in (filtered1, displayUnit2, needsConversion))"

text \<open>
  Steps 3 to 5 of \<open>Execute\<close>: group and aggregate, dispatch to a builder, resolve the
  reply template.
\<close>

definition Execute_build ::
  "('chart, 'table) env \<Rightarrow> QuerySpec \<Rightarrow> RecordView \<Rightarrow> string \<Rightarrow> string \<Rightarrow> bool
     \<Rightarrow> ('chart, 'table) Result" where
  "Execute_build env spec filtered measureKey displayUnit needsConversion =
     (let groups = GroupAndAggregate (ToLower env) filtered (GroupBy spec) measureKey
                     (Aggregation spec) (SortBy spec) (Limit spec);
          result = \<lparr> Success = True, Type = [], Reply = [], ChartConfig = None, TableData = None,
                     Data = None, DisplayUnit = displayUnit, ShouldConvert = needsConversion \<rparr>;
          resolved = ResolvePlaceholders env (QReply spec) groups filtered measureKey displayUnit
      in if Intent spec = ''chart'' then
           (case BuildChart env spec groups of
              None \<Rightarrow> result\<lparr> Type := ''text'', Reply := ''Not enough data to generate a chart.'' \<rparr>
            | Some chart \<Rightarrow> result\<lparr> Type := ''chart'', ChartConfig := Some chart, Reply := resolved \<rparr>)
         else if Intent spec = ''table'' then
           result\<lparr> Type := ''table'',
                   TableData := Some (BuildTable env spec groups filtered measureKey displayUnit),
                   Reply := resolved \<rparr>
         else if Intent spec = ''text'' then
           (let textData = BuildText env spec groups filtered measureKey displayUnit in
            if Aggregation spec = ''growth'' \<and>
               (case Growth textData of None \<Rightarrow> False
                | Some g \<Rightarrow> Direction g = ''insufficient data'') then
              result\<lparr> Type := ''text'', Data := Some textData,
                      Reply := ''Your data shows '' @ TextValue textData @ '' for '' @ Period textData
                                 @ ''. Need at least 2 months of data to show trends.'' \<rparr>
            else result\<lparr> Type := ''text'', Data := Some textData, Reply := resolved \<rparr>)
         else
           result\<lparr> Type := ''text'',
                   Data := Some (BuildText env spec groups filtered measureKey displayUnit),
                   Reply := resolved \<rparr>)"

definition Execute ::
  "('chart, 'table) env \<Rightarrow> QuerySpec \<Rightarrow> RecordView \<Rightarrow> Option list
     \<Rightarrow> error + ('chart, 'table) Result" where
  "Execute env spec view opts =
     (let cfg = applyOptions opts;
          measure0 = (if QMeasure spec = [] then DefaultMeasure cfg else QMeasure spec);
          measureKey = (if measure0 = [] then ''amount'' else measure0)
      in if Len view = 0 then
           Inr \<lparr> Success = True, Type = ''text'', Reply = ''No data available to analyze.'',
                 ChartConfig = None, TableData = None, Data = None, DisplayUnit = [],
                 ShouldConvert = False \<rparr>
         else if Aggregation spec = ''ratio'' \<and> CompareFilters spec \<noteq> None then
           executeRatio env spec view measureKey cfg
         else
           let filtered = ApplyFilters (ToLower env) view (QFilters spec) in
           if Len filtered = 0 then
             Inr \<lparr> Success = True, Type = ''text'',
                   Reply = ''No records match your query filters. Try broadening your search.'',
                   ChartConfig = None, TableData = None, Data = None, DisplayUnit = [],
                   ShouldConvert = False \<rparr>
           else
             let (filtered1, displayUnit, needsConversion) = Execute_currency cfg measureKey filtered
             in Inr (Execute_build env spec filtered1 measureKey displayUnit needsConversion))"

section \<open>Schema types\<close>

text \<open>
  The structs of package \<open>schema\<close>. A field of slice, map or pointer type has a type
  parameter: discovery works on the contents (lists and association lists), refinement
  on references into a store. Fields that several structs name alike carry the struct
  as a prefix. \<open>SortHint\<close>, \<open>RefinedAt\<close> and \<open>RefinedBy\<close> are the fields that
  \<open>applyEnrichments\<close> assigns.
\<close>

record 'strs DimensionMeta =
  DimKey :: string
  DimDisplayName :: string
  DimDescription :: string
  SampleValues :: 'strs
  Groupable :: bool
  Filterable :: bool
  Parent :: string
  IsTemporal :: bool
  TemporalFormat :: string
  TemporalOrder :: string
  IsCurrencyCode :: bool
  CardinalityHint :: string
  DerivedFrom :: string
  SortHint :: string

record 'strs MeasureMeta =
  MesKey :: string
  MesDisplayName :: string
  MesDescription :: string
  MesUnit :: string
  IsCurrency :: bool
  IsSynthetic :: bool
  Aggregations :: 'strs
  DefaultAggregation :: string
  MesFormat :: string

record 'rates CurrencyConfig =
  Enabled :: bool
  CodeDimension :: string
  CurBaseCurrency :: string
  Rates :: 'rates

record SkippedColumn =
  Column :: string
  Reason :: string
  Recoverable :: bool

record ('dims, 'meas, 'cur, 'skips) Config =
  CfgName :: string
  CfgVersion :: string
  CfgDescription :: string
  CfgDimensions :: 'dims
  CfgMeasures :: 'meas
  CfgCurrency :: 'cur
  DiscoveredFrom :: string
  DiscoveredAt :: string
  CfgSkippedColumns :: 'skips
  RefinedAt :: string
  RefinedBy :: string

type_synonym DimensionV = "string list DimensionMeta"
type_synonym MeasureV = "string list MeasureMeta"
type_synonym CurrencyV = "(string \<times> float64) list CurrencyConfig"
type_synonym ConfigV = "(DimensionV list, MeasureV list, CurrencyV option, SkippedColumn list) Config"

section \<open>Schema auto-discovery\<close>

datatype columnRole = roleDimension | roleMeasure | roleSkipped

datatype columnType = typeString | typeNumeric | typeDate | typeBool

record columnAnalysis =
  header :: string
  key :: string
  index :: nat
  colType :: columnType
  role :: columnRole
  skipReason :: string
  recoverable :: bool
  uniqueCount :: nat
  totalCount :: nat
  nullCount :: nat
  sampleVals :: "string list"
  isTemporal :: bool
  temporalFormat :: string
  isCurrencyCode :: bool
  hasDecimals :: bool
  cardinalityHint :: string

record DiscoverOptions =
  SampleSize :: int
  RecoverColumns :: "string list"
  OptName :: string

definition DefaultDiscoverOptions :: DiscoverOptions where
  "DefaultDiscoverOptions = \<lparr> SampleSize = 1000, RecoverColumns = [], OptName = [] \<rparr>"

text \<open>
  What discovery calls and this development does not embed, because it rests on
  \<open>encoding/csv\<close>, \<open>strconv\<close>, \<open>time\<close>, \<open>regexp\<close> or \<open>unicode\<close>:
  \<^item> \<open>csvRead data limit\<close>: the header record the reader yields, or its error, and the data
    records read without error among the next \<open>limit\<close> reads;
  \<^item> \<open>TrimSpace\<close>, \<open>LowerCase\<close>: \<open>strings.TrimSpace\<close> and \<open>strings.ToLower\<close>;
  \<^item> \<open>toSnakeCase\<close>, \<open>toDisplayName\<close>, \<open>detectType\<close>, \<open>detectCurrencyCodes\<close>,
    \<open>detectTemporalPattern\<close>: the helpers of these names;
  \<^item> \<open>now\<close>: the formatted current time.
\<close>

record denv =
  csvRead :: "string \<Rightarrow> nat \<Rightarrow> (error + string list) \<times> string list list"
  TrimSpace :: "string \<Rightarrow> string"
  LowerCase :: "string \<Rightarrow> string"
  toSnakeCase :: "string \<Rightarrow> string"
  toDisplayName :: "string \<Rightarrow> string"
  detectType :: "string list \<Rightarrow> columnType"
  detectCurrencyCodes :: "string list \<Rightarrow> bool"
  detectTemporalPattern :: "string list \<Rightarrow> bool \<times> string"
  now :: string

text \<open>
  \<open>collectSamples\<close>: the members of the set in ascending order, cut to \<open>maxSamples\<close>. The
  set is given by a list of its members without repetition.
\<close>

definition collectSamples :: "string list \<Rightarrow> nat \<Rightarrow> string list" where
  "collectSamples uniqueSet maxSamples =
     (let samples = sort_Slice str_less uniqueSet in
      if length samples > maxSamples then take maxSamples samples else samples)"

definition classifyRole :: "columnAnalysis \<Rightarrow> nat \<Rightarrow> columnAnalysis" where
  "classifyRole col totalRows =
     (case colType col of
        typeNumeric \<Rightarrow>
          if uniqueCount col = totalRows \<and> totalRows > 10 then
            col\<lparr> role := roleSkipped,
                 skipReason := ''Unique per row '' @ em_dash @ '' likely an ID column'',
                 recoverable := False \<rparr>
          else if hasDecimals col then col\<lparr> role := roleMeasure \<rparr>
          else
            (let uniqueRatio = real (uniqueCount col) / real totalRows in
             if uniqueCount col < 20 \<and> uniqueRatio < 0.3 then col\<lparr> role := roleDimension \<rparr>
             else col\<lparr> role := roleMeasure \<rparr>)
      | typeDate \<Rightarrow> col\<lparr> role := roleDimension, isTemporal := True \<rparr>
      | typeBool \<Rightarrow> col\<lparr> role := roleDimension \<rparr>
      | typeString \<Rightarrow>
          if uniqueCount col = totalRows \<and> totalRows > 10 then
            col\<lparr> role := roleSkipped,
                 skipReason := ''Unique per row '' @ em_dash @ '' likely an identifier'',
                 recoverable := False \<rparr>
          else if uniqueCount col > totalRows div 2 \<and> uniqueCount col > 50 then
            col\<lparr> role := roleSkipped,
                 skipReason := ''High cardinality ('' @ decimal (uniqueCount col) @ '' unique values) ''
                                 @ em_dash @ '' not useful for grouping'',
                 recoverable := True \<rparr>
          else col\<lparr> role := roleDimension \<rparr>)"

text \<open>The non-null values of a column, trimmed, in row order.\<close>

definition is_null_value :: "string \<Rightarrow> bool" where
  "is_null_value val =
     (val = [] \<or> val = ''null'' \<or> val = ''NULL'' \<or> val = ''N/A'' \<or> val = ''n/a'')"

definition column_values :: "denv \<Rightarrow> nat \<Rightarrow> string list list \<Rightarrow> string list" where
  "column_values env idx rows =
     concat (map (\<lambda>row. if idx \<ge> length row then []
                         else (let val = TrimSpace env (row ! idx) in
                               if is_null_value val then [] else [val]))
                 rows)"

definition analyzeColumn :: "denv \<Rightarrow> string \<Rightarrow> nat \<Rightarrow> string list list \<Rightarrow> nat \<Rightarrow> columnAnalysis" where
  "analyzeColumn env hdr idx rows totalRows =
     (let vals = column_values env idx rows;
          uniqueSet = remdups vals;
          col = \<lparr> header = hdr, key = toSnakeCase env hdr, index = idx, colType = typeString,
                  role = roleDimension, skipReason = [], recoverable = False,
                  uniqueCount = length uniqueSet, totalCount = totalRows,
                  nullCount = length rows - length vals, sampleVals = [],
                  isTemporal = False, temporalFormat = [], isCurrencyCode = False,
                  hasDecimals = False, cardinalityHint = [] \<rparr>
      in if length vals = 0 then
           col\<lparr> role := roleSkipped, skipReason := ''All values are empty/null'', recoverable := False \<rparr>
         else
           let col1 = col\<lparr> sampleVals := collectSamples uniqueSet 10, colType := detectType env vals \<rparr>;
               col2 = (if colType col1 = typeNumeric
                       then col1\<lparr> hasDecimals := list_ex (\<lambda>v. CHR ''.'' \<in> set v) vals \<rparr>
                       else col1);
               col3 = (if colType col2 = typeString
                       then col2\<lparr> isCurrencyCode := detectCurrencyCodes env (sampleVals col2),
                                  isTemporal := fst (detectTemporalPattern env (sampleVals col2)),
                                  temporalFormat := snd (detectTemporalPattern env (sampleVals col2)) \<rparr>
                       else col2);
               col4 = (if colType col3 = typeDate then col3\<lparr> isTemporal := True \<rparr> else col3);
               col5 = classifyRole col4 totalRows
           in col5\<lparr> cardinalityHint :=
                       (if uniqueCount col5 \<le> 10 then ''low''
                        else if uniqueCount col5 \<le> 100 then ''medium''
                        else ''high'') \<rparr>)"

definition toDimension :: "denv \<Rightarrow> columnAnalysis \<Rightarrow> DimensionV" where
  "toDimension env col =
     \<lparr> DimKey = key col, DimDisplayName = toDisplayName env (header col), DimDescription = [],
       SampleValues = sampleVals col, Groupable = True, Filterable = True, Parent = [],
       IsTemporal = isTemporal col, TemporalFormat = temporalFormat col,
       TemporalOrder = ''chronological'', IsCurrencyCode = isCurrencyCode col,
       CardinalityHint = cardinalityHint col, DerivedFrom = [], SortHint = [] \<rparr>"

definition toMeasure :: "denv \<Rightarrow> columnAnalysis \<Rightarrow> MeasureV" where
  "toMeasure env col =
     \<lparr> MesKey = key col, MesDisplayName = toDisplayName env (header col), MesDescription = [],
       MesUnit = [], IsCurrency = False, IsSynthetic = False,
       Aggregations = [''sum'', ''avg'', ''min'', ''max'', ''count''],
       DefaultAggregation = ''sum'', MesFormat = [] \<rparr>"

subsection \<open>Hierarchy detection\<close>

text \<open>
  The loop over the rows for one pair of columns: the map from child value to parent
  value built so far, and whether every child value seen had a single parent value. The
  loop stops at the first child value seen with a second parent value.
\<close>

fun scan_rows ::
  "denv \<Rightarrow> nat \<Rightarrow> nat \<Rightarrow> string list list \<Rightarrow> (string \<times> string) list \<Rightarrow> (string \<times> string) list \<times> bool" where
  "scan_rows env childIdx parentIdx [] childToParent = (childToParent, True)"
| "scan_rows env childIdx parentIdx (row # rows) childToParent =
     (if childIdx \<ge> length row \<or> parentIdx \<ge> length row
      then scan_rows env childIdx parentIdx rows childToParent
      else
        let child = TrimSpace env (row ! childIdx);
            parent = TrimSpace env (row ! parentIdx)
        in if child = [] \<or> parent = [] then scan_rows env childIdx parentIdx rows childToParent
           else (case map_of childToParent child of
                   Some existing \<Rightarrow>
                     if existing \<noteq> parent then (childToParent, False)
                     else scan_rows env childIdx parentIdx rows childToParent
                 | None \<Rightarrow>
                     scan_rows env childIdx parentIdx rows (map_put child parent childToParent)))"

definition dimIndices_of :: "columnAnalysis list \<Rightarrow> (string \<times> nat) list" where
  "dimIndices_of columns =
     fold (\<lambda>col m. if role col = roleDimension then map_put (key col) (index col) m else m) columns []"

definition dimUniques_of :: "columnAnalysis list \<Rightarrow> (string \<times> nat) list" where
  "dimUniques_of columns =
     fold (\<lambda>col m. if role col = roleDimension then map_put (key col) (uniqueCount col) m else m) columns []"

definition nat_at :: "('k \<rightharpoonup> nat) \<Rightarrow> 'k \<Rightarrow> nat" where
  "nat_at m k = (case m k of None \<Rightarrow> 0 | Some v \<Rightarrow> v)"

text \<open>The inner loop over the candidate parents of the dimension at position \<open>i\<close>.\<close>

definition bestParent_of ::
  "denv \<Rightarrow> DimensionV list \<Rightarrow> string list list \<Rightarrow> columnAnalysis list \<Rightarrow> nat \<Rightarrow> nat \<Rightarrow> string \<times> nat" where
  "bestParent_of env dimensions rows columns i childIdx =
     (let dimIndices = dimIndices_of columns;
          dimUniques = dimUniques_of columns;
          childKey = DimKey (dimensions ! i)
      in fold (\<lambda>j (bestParent, bestParentUniques).
                 if i = j then (bestParent, bestParentUniques)
                 else
                   let parentKey = DimKey (dimensions ! j) in
                   (case map_of dimIndices parentKey of
                      None \<Rightarrow> (bestParent, bestParentUniques)
                    | Some parentIdx \<Rightarrow>
                        if nat_at (map_of dimUniques) parentKey \<ge> nat_at (map_of dimUniques) childKey
                        then (bestParent, bestParentUniques)
                        else
                          let (childToParent, isHierarchy) = scan_rows env childIdx parentIdx rows [] in
                          if isHierarchy \<and> length childToParent > 1 then
                            (if nat_at (map_of dimUniques) parentKey > bestParentUniques
                             then (parentKey, nat_at (map_of dimUniques) parentKey)
                             else (bestParent, bestParentUniques))
                          else (bestParent, bestParentUniques)))
              [0..<length dimensions] ([], 0))"

definition detectHierarchies ::
  "denv \<Rightarrow> DimensionV list \<Rightarrow> string list list \<Rightarrow> columnAnalysis list \<Rightarrow> DimensionV list" where
  "detectHierarchies env dimensions rows columns =
     map (\<lambda>i. let d = dimensions ! i in
               (case map_of (dimIndices_of columns) (DimKey d) of
                  None \<Rightarrow> d
                | Some childIdx \<Rightarrow>
                    let (bestParent, bestParentUniques) =
                          bestParent_of env dimensions rows columns i childIdx
                    in if bestParent \<noteq> [] then d\<lparr> Parent := bestParent \<rparr> else d))
         [0..<length dimensions]"

subsection \<open>Currency configuration and the discovery entry point\<close>

fun detectCurrencyConfig :: "DimensionV list \<Rightarrow> CurrencyV option" where
  "detectCurrencyConfig [] = None"
| "detectCurrencyConfig (d # ds) =
     (if IsCurrencyCode d then
        Some \<lparr> Enabled = True, CodeDimension = DimKey d,
               CurBaseCurrency = (if length (SampleValues d) > 0 then SampleValues d ! 0 else []),
               Rates = [] \<rparr>
      else detectCurrencyConfig ds)"

definition DiscoverFromCSV :: "denv \<Rightarrow> string \<Rightarrow> DiscoverOptions list \<Rightarrow> error + ConfigV" where
  "DiscoverFromCSV env data opts =
     (let opt = (if length opts > 0 then opts ! 0 else DefaultDiscoverOptions);
          limit = (if SampleSize opt \<le> 0 then 100000 else nat (SampleSize opt));
          (headerResult, rows) = csvRead env data limit
      in case headerResult of
           Inl err \<Rightarrow> Inl (''failed to read CSV headers: '' @ err)
         | Inr headers \<Rightarrow>
             if length headers = 0 then Inl ''CSV has no columns''
             else
               let totalRows = length rows in
               if totalRows = 0 then Inl ''CSV has no data rows''
               else
                 let columns = map (\<lambda>i. analyzeColumn env (headers ! i) i rows totalRows)
                                   [0..<length headers];
                     recoverSet = set (map (LowerCase env) (RecoverColumns opt));
                     recovered = (\<lambda>col. LowerCase env (header col) \<in> recoverSet \<or> key col \<in> recoverSet);
                     dimensions = concat (map (\<lambda>col.
                         if role col = roleDimension \<or> (role col = roleSkipped \<and> recovered col)
                         then [toDimension env col] else []) columns);
                     measures = concat (map (\<lambda>col.
                         if role col = roleMeasure then [toMeasure env col] else []) columns);
                     skipped = concat (map (\<lambda>col.
                         if role col = roleSkipped \<and> \<not> recovered col
                         then [\<lparr> Column = header col, Reason = skipReason col,
                                  Recoverable = recoverable col \<rparr>]
                         else []) columns);
                     measures1 = measures @
                        [\<lparr> MesKey = ''record_count'', MesDisplayName = ''Record Count'',
                            MesDescription = ''Number of records (auto-generated)'', MesUnit = [],
                            IsCurrency = False, IsSynthetic = True, Aggregations = [''count''],
                            DefaultAggregation = ''count'', MesFormat = [] \<rparr>];
                     dimensions1 = detectHierarchies env dimensions rows columns;
                     currency = detectCurrencyConfig dimensions1
                 in Inr \<lparr> CfgName = (if OptName opt = [] then ''Auto-discovered Dataset'' else OptName opt),
                          CfgVersion = ''1.0'', CfgDescription = [],
                          CfgDimensions = dimensions1, CfgMeasures = measures1,
                          CfgCurrency = currency, DiscoveredFrom = ''CSV'', DiscoveredAt = now env,
                          CfgSkippedColumns = skipped, RefinedAt = [], RefinedBy = [] \<rparr>)"

section \<open>Schema refinement\<close>

text \<open>
  \<open>Refine\<close> works on pointers: a draft \<open>*Config\<close> whose slices, map and nested struct are
  shared with whoever holds the draft. The store is the list of the objects allocated so
  far, an address is a position in it, and allocation appends. A slice is the address of
  its backing array (\<open>None\<close> for a nil slice), read as a whole; a map and a pointer
  likewise.
\<close>

type_synonym addr = nat

type_synonym DimensionH = "addr option DimensionMeta"
type_synonym MeasureH = "addr option MeasureMeta"
type_synonym CurrencyH = "addr option CurrencyConfig"
type_synonym ConfigH = "(addr option, addr option, addr option, addr option) Config"

datatype obj =
    StrArray "string list"
  | DimArray "DimensionH list"
  | MesArray "MeasureH list"
  | SkipArray "SkippedColumn list"
  | RateMap "(string \<times> float64) list"
  | CurrencyObj CurrencyH
  | ConfigObj ConfigH

type_synonym store = "obj list"

definition alloc :: "obj \<Rightarrow> store \<Rightarrow> addr \<times> store" where
  "alloc ob h = (length h, h @ [ob])"

definition obj_at :: "store \<Rightarrow> addr \<Rightarrow> obj option" where
  "obj_at h a = (if a < length h then Some (h ! a) else None)"

definition str_array :: "store \<Rightarrow> addr option \<Rightarrow> string list" where
  "str_array h sl = (case sl of None \<Rightarrow> []
                     | Some a \<Rightarrow> (case obj_at h a of Some (StrArray xs) \<Rightarrow> xs | _ \<Rightarrow> []))"

definition dim_array :: "store \<Rightarrow> addr option \<Rightarrow> DimensionH list" where
  "dim_array h sl = (case sl of None \<Rightarrow> []
                     | Some a \<Rightarrow> (case obj_at h a of Some (DimArray xs) \<Rightarrow> xs | _ \<Rightarrow> []))"

definition mes_array :: "store \<Rightarrow> addr option \<Rightarrow> MeasureH list" where
  "mes_array h sl = (case sl of None \<Rightarrow> []
                     | Some a \<Rightarrow> (case obj_at h a of Some (MesArray xs) \<Rightarrow> xs | _ \<Rightarrow> []))"

definition skip_array :: "store \<Rightarrow> addr option \<Rightarrow> SkippedColumn list" where
  "skip_array h sl = (case sl of None \<Rightarrow> []
                      | Some a \<Rightarrow> (case obj_at h a of Some (SkipArray xs) \<Rightarrow> xs | _ \<Rightarrow> []))"

definition rate_map :: "store \<Rightarrow> addr option \<Rightarrow> (string \<times> float64) list" where
  "rate_map h mp = (case mp of None \<Rightarrow> []
                    | Some a \<Rightarrow> (case obj_at h a of Some (RateMap xs) \<Rightarrow> xs | _ \<Rightarrow> []))"

definition currency_at :: "store \<Rightarrow> addr \<Rightarrow> CurrencyH option" where
  "currency_at h a = (case obj_at h a of Some (CurrencyObj c) \<Rightarrow> Some c | _ \<Rightarrow> None)"

definition config_at :: "store \<Rightarrow> addr \<Rightarrow> ConfigH option" where
  "config_at h a = (case obj_at h a of Some (ConfigObj c) \<Rightarrow> Some c | _ \<Rightarrow> None)"

text \<open>Writing one element of an array, or one struct, in place.\<close>

definition set_dim :: "addr option \<Rightarrow> nat \<Rightarrow> DimensionH \<Rightarrow> store \<Rightarrow> store" where
  "set_dim sl i d h =
     (case sl of None \<Rightarrow> h
      | Some a \<Rightarrow> (case obj_at h a of
                     Some (DimArray xs) \<Rightarrow> h[a := DimArray (xs[i := d])]
                   | _ \<Rightarrow> h))"

definition set_mes :: "addr option \<Rightarrow> nat \<Rightarrow> MeasureH \<Rightarrow> store \<Rightarrow> store" where
  "set_mes sl i m h =
     (case sl of None \<Rightarrow> h
      | Some a \<Rightarrow> (case obj_at h a of
                     Some (MesArray xs) \<Rightarrow> h[a := MesArray (xs[i := m])]
                   | _ \<Rightarrow> h))"

definition set_config :: "addr \<Rightarrow> ConfigH \<Rightarrow> store \<Rightarrow> store" where
  "set_config a c h = (case obj_at h a of Some (ConfigObj old) \<Rightarrow> h[a := ConfigObj c] | _ \<Rightarrow> h)"

text \<open>The contents a pointer leads to: the schema as discovery has it.\<close>

definition load_dim :: "store \<Rightarrow> DimensionH \<Rightarrow> DimensionV" where
  "load_dim h d =
     \<lparr> DimKey = DimKey d, DimDisplayName = DimDisplayName d, DimDescription = DimDescription d,
       SampleValues = str_array h (SampleValues d), Groupable = Groupable d,
       Filterable = Filterable d, Parent = Parent d, IsTemporal = IsTemporal d,
       TemporalFormat = TemporalFormat d, TemporalOrder = TemporalOrder d,
       IsCurrencyCode = IsCurrencyCode d, CardinalityHint = CardinalityHint d,
       DerivedFrom = DerivedFrom d, SortHint = SortHint d \<rparr>"

definition load_mes :: "store \<Rightarrow> MeasureH \<Rightarrow> MeasureV" where
  "load_mes h m =
     \<lparr> MesKey = MesKey m, MesDisplayName = MesDisplayName m, MesDescription = MesDescription m,
       MesUnit = MesUnit m, IsCurrency = IsCurrency m, IsSynthetic = IsSynthetic m,
       Aggregations = str_array h (Aggregations m), DefaultAggregation = DefaultAggregation m,
       MesFormat = MesFormat m \<rparr>"

definition load_currency :: "store \<Rightarrow> addr option \<Rightarrow> CurrencyV option" where
  "load_currency h p =
     (case p of None \<Rightarrow> None
      | Some a \<Rightarrow> (case currency_at h a of
                     None \<Rightarrow> None
                   | Some c \<Rightarrow> Some \<lparr> Enabled = Enabled c, CodeDimension = CodeDimension c,
                                       CurBaseCurrency = CurBaseCurrency c,
                                       Rates = rate_map h (Rates c) \<rparr>))"

definition load_config :: "store \<Rightarrow> addr \<Rightarrow> ConfigV option" where
  "load_config h a =
     (case config_at h a of
        None \<Rightarrow> None
      | Some c \<Rightarrow>
          Some \<lparr> CfgName = CfgName c, CfgVersion = CfgVersion c, CfgDescription = CfgDescription c,
                 CfgDimensions = map (load_dim h) (dim_array h (CfgDimensions c)),
                 CfgMeasures = map (load_mes h) (mes_array h (CfgMeasures c)),
                 CfgCurrency = load_currency h (CfgCurrency c),
                 DiscoveredFrom = DiscoveredFrom c, DiscoveredAt = DiscoveredAt c,
                 CfgSkippedColumns = skip_array h (CfgSkippedColumns c),
                 RefinedAt = RefinedAt c, RefinedBy = RefinedBy c \<rparr>)"

subsection \<open>The deep copy\<close>

text \<open>
  \<open>deepCopyConfig\<close>. Every \<open>make\<close> with the \<open>copy\<close> or the element assignments that fill
  it is one allocation of the filled array, and the copy is built from the leaves up, the
  \<open>Config\<close> struct last: the order of allocations is not observable. \<open>None\<close> stands for the
  panic of dereferencing a pointer that leads to no \<open>Config\<close>.
\<close>

fun copy_dims :: "DimensionH list \<Rightarrow> store \<Rightarrow> DimensionH list \<times> store" where
  "copy_dims [] h = ([], h)"
| "copy_dims (d # ds) h =
     (let (samples, h1) = alloc (StrArray (str_array h (SampleValues d))) h;
          (ds1, h2) = copy_dims ds h1
      in (d\<lparr> SampleValues := Some samples \<rparr> # ds1, h2))"

fun copy_measures :: "MeasureH list \<Rightarrow> store \<Rightarrow> MeasureH list \<times> store" where
  "copy_measures [] h = ([], h)"
| "copy_measures (m # ms) h =
     (let (aggs, h1) = alloc (StrArray (str_array h (Aggregations m))) h;
          (ms1, h2) = copy_measures ms h1
      in (m\<lparr> Aggregations := Some aggs \<rparr> # ms1, h2))"

definition copy_currency :: "addr option \<Rightarrow> store \<Rightarrow> addr option \<times> store" where
  "copy_currency p h =
     (case p of
        None \<Rightarrow> (None, h)
      | Some ca \<Rightarrow>
          (case currency_at h ca of
             None \<Rightarrow> (None, h)
           | Some c \<Rightarrow>
               let (rates, h1) = alloc (RateMap (rate_map h (Rates c))) h;
                   (cp, h2) = alloc (CurrencyObj (c\<lparr> Rates := Some rates \<rparr>)) h1
               in (Some cp, h2)))"

definition deepCopyConfig :: "store \<Rightarrow> addr \<Rightarrow> (addr \<times> store) option" where
  "deepCopyConfig h src =
     (case config_at h src of
        None \<Rightarrow> None
      | Some s \<Rightarrow>
          let (dimsCopy, h1) = copy_dims (dim_array h (CfgDimensions s)) h;
              (dims, h2) = alloc (DimArray dimsCopy) h1;
              (measuresCopy, h3) = copy_measures (mes_array h2 (CfgMeasures s)) h2;
              (meas, h4) = alloc (MesArray measuresCopy) h3;
              (skips, h5) = alloc (SkipArray (skip_array h4 (CfgSkippedColumns s))) h4;
              (cur, h6) = copy_currency (CfgCurrency s) h5;
              (dst, h7) = alloc (ConfigObj \<lparr> CfgName = CfgName s, CfgVersion = CfgVersion s,
                                   CfgDescription = CfgDescription s, CfgDimensions = Some dims,
                                   CfgMeasures = Some meas, CfgCurrency = cur,
                                   DiscoveredFrom = DiscoveredFrom s, DiscoveredAt = DiscoveredAt s,
                                   CfgSkippedColumns = Some skips, RefinedAt = [], RefinedBy = [] \<rparr>) h6
          in Some (dst, h7))"

subsection \<open>Merging the enrichments\<close>

record RefineConfig =
  APIKey :: string
  Model :: string
  Endpoint :: string

record columnEnrichment =
  EnKey :: string
  EnDisplayName :: string
  EnDescription :: string
  EnUnit :: string
  EnSortHint :: string
  EnDefaultAggregation :: string

record hierarchySuggestion =
  HsParent :: string
  HsChild :: string
  HsReason :: string

record recoverSuggestion =
  RsColumn :: string
  RsReason :: string
  RsSuggestedRole :: string

record refineEnrichment =
  DatasetName :: string
  DatasetDescription :: string
  Enrichments :: "columnEnrichment list"
  SuggestedHierarchies :: "hierarchySuggestion list"
  EnRecoverColumns :: "recoverSuggestion list"

text \<open>
  What refinement calls and this development does not embed:
  \<^item> \<open>refinePrompt\<close>: \<open>buildRefinePayload\<close> followed by \<open>buildRefinePrompt\<close>, which read the draft
    and marshal it to JSON;
  \<^item> \<open>callRefineGemini\<close>: the HTTP call, with its outcome;
  \<^item> \<open>parseRefineResponse\<close>: the JSON parser of the response;
  \<^item> \<open>timeNow\<close>: the formatted current time.
\<close>

record renv =
  refinePrompt :: "ConfigV \<Rightarrow> string"
  callRefineGemini :: "string \<Rightarrow> RefineConfig \<Rightarrow> error + string"
  parseRefineResponse :: "string \<Rightarrow> error + refineEnrichment"
  timeNow :: string

definition isValidAggregation :: "string \<Rightarrow> bool" where
  "isValidAggregation agg =
     (agg = ''sum'' \<or> agg = ''avg'' \<or> agg = ''count'' \<or> agg = ''max'' \<or> agg = ''min'')"

text \<open>The map \<open>enrichMap\<close>: a later enrichment for a key replaces an earlier one.\<close>

definition enrichMap_of :: "columnEnrichment list \<Rightarrow> string \<rightharpoonup> columnEnrichment" where
  "enrichMap_of es = fold (\<lambda>e m. m(EnKey e \<mapsto> e)) es Map.empty"

definition enrich_dim :: "(string \<rightharpoonup> columnEnrichment) \<Rightarrow> 's DimensionMeta \<Rightarrow> 's DimensionMeta" where
  "enrich_dim enrichMap d =
     (case enrichMap (DimKey d) of
        None \<Rightarrow> d
      | Some e \<Rightarrow>
          let d1 = (if EnDisplayName e \<noteq> [] then d\<lparr> DimDisplayName := EnDisplayName e \<rparr> else d);
              d2 = (if EnDescription e \<noteq> [] then d1\<lparr> DimDescription := EnDescription e \<rparr> else d1)
          in if EnSortHint e \<noteq> [] then d2\<lparr> SortHint := EnSortHint e \<rparr> else d2)"

definition enrich_mes :: "(string \<rightharpoonup> columnEnrichment) \<Rightarrow> 's MeasureMeta \<Rightarrow> 's MeasureMeta" where
  "enrich_mes enrichMap m =
     (case enrichMap (MesKey m) of
        None \<Rightarrow> m
      | Some e \<Rightarrow>
          let m1 = (if EnDisplayName e \<noteq> [] then m\<lparr> MesDisplayName := EnDisplayName e \<rparr> else m);
              m2 = (if EnDescription e \<noteq> [] then m1\<lparr> MesDescription := EnDescription e \<rparr> else m1);
              m3 = (if EnUnit e \<noteq> [] then
                      (let m21 = m2\<lparr> MesUnit := EnUnit e \<rparr> in
                       if EnUnit e = ''currency'' then m21\<lparr> IsCurrency := True \<rparr> else m21)
                    else m2)
          in if EnDefaultAggregation e \<noteq> [] \<and> isValidAggregation (EnDefaultAggregation e)
             then m3\<lparr> DefaultAggregation := EnDefaultAggregation e \<rparr> else m3)"

definition suggest_parent :: "hierarchySuggestion \<Rightarrow> 's DimensionMeta \<Rightarrow> 's DimensionMeta" where
  "suggest_parent hs d =
     (if DimKey d = HsChild hs \<and> Parent d = [] then d\<lparr> Parent := HsParent hs \<rparr> else d)"

text \<open>
  \<open>applyEnrichments\<close>: the deep copy, then every assignment in place, on the copy. Each
  loop over \<open>result.Dimensions\<close> or \<open>result.Measures\<close> reads the slice from the copy and
  writes one element at a time.
\<close>

definition modify_dims :: "addr \<Rightarrow> (DimensionH \<Rightarrow> DimensionH) \<Rightarrow> store \<Rightarrow> store" where
  "modify_dims result f h =
     (case config_at h result of
        None \<Rightarrow> h
      | Some c \<Rightarrow>
          fold (\<lambda>i h. set_dim (CfgDimensions c) i (f (dim_array h (CfgDimensions c) ! i)) h)
               [0..<length (dim_array h (CfgDimensions c))] h)"

definition modify_measures :: "addr \<Rightarrow> (MeasureH \<Rightarrow> MeasureH) \<Rightarrow> store \<Rightarrow> store" where
  "modify_measures result f h =
     (case config_at h result of
        None \<Rightarrow> h
      | Some c \<Rightarrow>
          fold (\<lambda>i h. set_mes (CfgMeasures c) i (f (mes_array h (CfgMeasures c) ! i)) h)
               [0..<length (mes_array h (CfgMeasures c))] h)"

definition modify_config :: "addr \<Rightarrow> (ConfigH \<Rightarrow> ConfigH) \<Rightarrow> store \<Rightarrow> store" where
  "modify_config result f h =
     (case config_at h result of None \<Rightarrow> h | Some c \<Rightarrow> set_config result (f c) h)"

definition applyEnrichments :: "renv \<Rightarrow> store \<Rightarrow> addr \<Rightarrow> refineEnrichment \<Rightarrow> (addr \<times> store) option" where
  "applyEnrichments env h draft enrichment =
     (case deepCopyConfig h draft of
        None \<Rightarrow> None
      | Some (result, h1) \<Rightarrow>
          let h2 = (if DatasetName enrichment \<noteq> []
                    then modify_config result (\<lambda>c. c\<lparr> CfgName := DatasetName enrichment \<rparr>) h1 else h1);
              h3 = (if DatasetDescription enrichment \<noteq> []
                    then modify_config result (\<lambda>c. c\<lparr> CfgDescription := DatasetDescription enrichment \<rparr>) h2
                    else h2);
              enrichMap = enrichMap_of (Enrichments enrichment);
              h4 = modify_dims result (enrich_dim enrichMap) h3;
              h5 = modify_measures result (enrich_mes enrichMap) h4;
              h6 = fold (\<lambda>hs h. modify_dims result (suggest_parent hs) h)
                        (SuggestedHierarchies enrichment) h5;
              h7 = modify_config result (\<lambda>c. c\<lparr> RefinedAt := timeNow env, RefinedBy := ''gemini'' \<rparr>) h6
          in Some (result, h7))"

text \<open>
  \<open>Refine\<close>: the pointer and the error it returns, and the store it leaves. The draft is a
  pointer, nil or not.
\<close>

definition Refine ::
  "renv \<Rightarrow> store \<Rightarrow> addr option \<Rightarrow> RefineConfig \<Rightarrow> (addr option \<times> error option) \<times> store" where
  "Refine env h draft cfg =
     (case draft of
        None \<Rightarrow> ((None, Some ''draft schema is nil''), h)
      | Some d \<Rightarrow>
          if APIKey cfg = [] then ((None, Some ''API key is required for Smart Refine''), h)
          else
            let cfg1 = (if Model cfg = [] then cfg\<lparr> Model := ''gemini-2.5-flash-lite'' \<rparr> else cfg);
                cfg2 = (if Endpoint cfg1 = []
                        then cfg1\<lparr> Endpoint := ''https://generativelanguage.googleapis.com/v1beta/models'' \<rparr>
                        else cfg1)
            in (case load_config h d of
                  None \<Rightarrow> ((None, Some ''invalid memory address or nil pointer dereference''), h)
                | Some content \<Rightarrow>
                    (case callRefineGemini env (refinePrompt env content) cfg2 of
                       Inl err \<Rightarrow> ((draft, Some (''smart refine AI call failed: '' @ err)), h)
                     | Inr response \<Rightarrow>
                         (case parseRefineResponse env response of
                            Inl err \<Rightarrow> ((draft, Some (''smart refine parse failed: '' @ err)), h)
                          | Inr enrichment \<Rightarrow>
                              (case applyEnrichments env h d enrichment of
                                 None \<Rightarrow> ((None, Some ''invalid memory address or nil pointer dereference''), h)
                               | Some (result, h1) \<Rightarrow> ((Some result, None), h1))))))"

section \<open>Example data\<close>

definition demo_env :: "(unit, unit) env" where
  "demo_env = \<lparr> ToLower = ascii_lower, rangeOrder = rev, Sprintf_1f = (\<lambda>x. ''?''),
      FormatCurrency = (\<lambda>x u. u), FormatInt = (\<lambda>n. ''#''), BuildChart = (\<lambda>s g. None),
      BuildTable = (\<lambda>s g v m u. ()), ResolvePlaceholders = (\<lambda>t g v m u. t) \<rparr>"

definition demo_spec :: QuerySpec where
  "demo_spec = \<lparr> Intent = ''text'', QFilters = \<lparr> FDimensions = [] \<rparr>, CompareFilters = None,
      Aggregation = ''sum'', QMeasure = [], GroupBy = [], SortBy = [], Limit = 0,
      Visualize = ''text'', Title = [], QReply = ''Total {total}'', Confidence = 1 \<rparr>"


definition demo_ratio_spec :: QuerySpec where
  "demo_ratio_spec =
     demo_spec\<lparr> Aggregation := ''ratio'',
                QFilters := \<lparr> FDimensions = [(''category'', [''Expense''])] \<rparr>,
                CompareFilters := Some \<lparr> FDimensions = [(''currency'', [''SGD''])] \<rparr>,
                QReply := ''Done.'' \<rparr>"






definition uncoded_records :: "Record list" where
  "uncoded_records =
     [ \<lparr> Dimensions = [''category'' \<mapsto> ''Expense''], Measures = [''amount'' \<mapsto> 10] \<rparr>,
       \<lparr> Dimensions = [''category'' \<mapsto> ''Income''], Measures = [''amount'' \<mapsto> 20] \<rparr> ]"

definition demo_rates :: "(string \<times> float64) list" where
  "demo_rates = [(''INR'', 0.016), (''USD'', 1.35)]"

definition date_column :: columnAnalysis where
  "date_column =
     \<lparr> header = ''Created'', key = ''created'', index = 0, colType = typeDate,
       role = roleDimension, skipReason = [], recoverable = False,
       uniqueCount = 11, totalCount = 11, nullCount = 0,
       sampleVals = [''2025-11-01'', ''2025-11-02''], isTemporal = True, temporalFormat = [],
       isCurrencyCode = False, hasDecimals = False, cardinalityHint = [] \<rparr>"

text \<open>
  An ASCII instance of \<open>strings.TrimSpace\<close> and an instance of the discovery callees that
  takes every column for a string column, used to evaluate examples.
\<close>

definition ascii_space :: "char \<Rightarrow> bool" where
  "ascii_space c = (c \<in> set [CHR '' '', CHR 0x09, CHR 0x0A, CHR 0x0B, CHR 0x0C, CHR 0x0D])"

definition ascii_trim :: "string \<Rightarrow> string" where
  "ascii_trim s = rev (dropWhile ascii_space (rev (dropWhile ascii_space s)))"

definition demo_denv :: "string list \<Rightarrow> string list list \<Rightarrow> denv" where
  "demo_denv headers rows =
     \<lparr> csvRead = (\<lambda>data limit. (Inr headers, take limit rows)),
       TrimSpace = ascii_trim, LowerCase = ascii_lower, toSnakeCase = ascii_lower,
       toDisplayName = (\<lambda>s. s), detectType = (\<lambda>vals. typeString),
       detectCurrencyCodes = (\<lambda>samples. False), detectTemporalPattern = (\<lambda>samples. (False, [])),
       now = [] \<rparr>"

definition id_headers :: "string list" where
  "id_headers = [''Id'', ''Team'']"

definition id_rows :: "string list list" where
  "id_rows = map (\<lambda>n. [''T-'' @ decimal n, if n < 6 then ''red'' else ''blue'']) [0..<12]"









subsection \<open>A draft schema in a store\<close>

definition demo_store :: store where
  "demo_store =
     [ StrArray [''Food'', ''Rent''],
       DimArray [\<lparr> DimKey = ''category'', DimDisplayName = ''Category'', DimDescription = [],
                   SampleValues = Some 0, Groupable = True, Filterable = True, Parent = [],
                   IsTemporal = False, TemporalFormat = [], TemporalOrder = [],
                   IsCurrencyCode = False, CardinalityHint = ''low'', DerivedFrom = [],
                   SortHint = [] \<rparr>],
       StrArray [''sum'', ''avg''],
       MesArray [\<lparr> MesKey = ''amount'', MesDisplayName = ''Amount'', MesDescription = [],
                   MesUnit = ''number'', IsCurrency = False, IsSynthetic = False,
                   Aggregations = Some 2, DefaultAggregation = ''sum'', MesFormat = [] \<rparr>],
       SkipArray [\<lparr> Column = ''id'', Reason = ''identifier'', Recoverable = False \<rparr>],
       RateMap [(''SGD'', 1)],
       CurrencyObj \<lparr> Enabled = True, CodeDimension = ''currency'', CurBaseCurrency = ''SGD'',
                     Rates = Some 5 \<rparr>,
       ConfigObj \<lparr> CfgName = ''draft'', CfgVersion = ''1.0'', CfgDescription = [],
                   CfgDimensions = Some 1, CfgMeasures = Some 3, CfgCurrency = Some 6,
                   DiscoveredFrom = ''csv'', DiscoveredAt = ''2026-01-01T00:00:00Z'',
                   CfgSkippedColumns = Some 4, RefinedAt = [], RefinedBy = [] \<rparr> ]"

definition demo_draft :: addr where
  "demo_draft = 7"

definition demo_content :: ConfigV where
  "demo_content =
     \<lparr> CfgName = ''draft'', CfgVersion = ''1.0'', CfgDescription = [],
       CfgDimensions = [\<lparr> DimKey = ''category'', DimDisplayName = ''Category'', DimDescription = [],
                   SampleValues = [''Food'', ''Rent''], Groupable = True, Filterable = True,
                   Parent = [], IsTemporal = False, TemporalFormat = [], TemporalOrder = [],
                   IsCurrencyCode = False, CardinalityHint = ''low'', DerivedFrom = [],
                   SortHint = [] \<rparr>],
       CfgMeasures = [\<lparr> MesKey = ''amount'', MesDisplayName = ''Amount'', MesDescription = [],
                   MesUnit = ''number'', IsCurrency = False, IsSynthetic = False,
                   Aggregations = [''sum'', ''avg''], DefaultAggregation = ''sum'',
                   MesFormat = [] \<rparr>],
       CfgCurrency = Some \<lparr> Enabled = True, CodeDimension = ''currency'',
                            CurBaseCurrency = ''SGD'', Rates = [(''SGD'', 1)] \<rparr>,
       DiscoveredFrom = ''csv'', DiscoveredAt = ''2026-01-01T00:00:00Z'',
       CfgSkippedColumns = [\<lparr> Column = ''id'', Reason = ''identifier'', Recoverable = False \<rparr>],
       RefinedAt = [], RefinedBy = [] \<rparr>"

definition demo_enrichment :: refineEnrichment where
  "demo_enrichment =
     \<lparr> DatasetName = ''Household spending'', DatasetDescription = [],
       Enrichments = [\<lparr> EnKey = ''category'', EnDisplayName = ''Spending category'',
                         EnDescription = [], EnUnit = [], EnSortHint = [],
                         EnDefaultAggregation = [] \<rparr>,
                      \<lparr> EnKey = ''amount'', EnDisplayName = [], EnDescription = [],
                         EnUnit = ''currency'', EnSortHint = [],
                         EnDefaultAggregation = ''median'' \<rparr>],
       SuggestedHierarchies = [\<lparr> HsParent = ''group'', HsChild = ''category'', HsReason = [] \<rparr>],
       EnRecoverColumns = [] \<rparr>"

definition demo_renv :: renv where
  "demo_renv = \<lparr> refinePrompt = CfgName, callRefineGemini = (\<lambda>prompt cfg. Inr ''{}''),
                  parseRefineResponse = (\<lambda>response. Inr demo_enrichment),
                  timeNow = ''2026-02-01T00:00:00Z'' \<rparr>"

definition demo_refine_cfg :: RefineConfig where
  "demo_refine_cfg = \<lparr> APIKey = ''key'', Model = [], Endpoint = [] \<rparr>"

definition demo_refined :: ConfigV where
  "demo_refined =
     \<lparr> CfgName = ''Household spending'', CfgVersion = ''1.0'', CfgDescription = [],
       CfgDimensions = [\<lparr> DimKey = ''category'', DimDisplayName = ''Spending category'',
                   DimDescription = [],
                   SampleValues = [''Food'', ''Rent''], Groupable = True, Filterable = True,
                   Parent = ''group'', IsTemporal = False, TemporalFormat = [], TemporalOrder = [],
                   IsCurrencyCode = False, CardinalityHint = ''low'', DerivedFrom = [],
                   SortHint = [] \<rparr>],
       CfgMeasures = [\<lparr> MesKey = ''amount'', MesDisplayName = ''Amount'', MesDescription = [],
                   MesUnit = ''currency'', IsCurrency = True, IsSynthetic = False,
                   Aggregations = [''sum'', ''avg''], DefaultAggregation = ''sum'',
                   MesFormat = [] \<rparr>],
       CfgCurrency = Some \<lparr> Enabled = True, CodeDimension = ''currency'',
                            CurBaseCurrency = ''SGD'', Rates = [(''SGD'', 1)] \<rparr>,
       DiscoveredFrom = ''csv'', DiscoveredAt = ''2026-01-01T00:00:00Z'',
       CfgSkippedColumns = [\<lparr> Column = ''id'', Reason = ''identifier'', Recoverable = False \<rparr>],
       RefinedAt = ''2026-02-01T00:00:00Z'', RefinedBy = ''gemini'' \<rparr>"

section \<open>Specification-side notions\<close>







text \<open>The measure key \<open>Execute\<close> resolves from the query and the options.\<close>

definition resolved_measure :: "QuerySpec \<Rightarrow> Option list \<Rightarrow> string" where
  "resolved_measure spec opts =
     (if QMeasure spec \<noteq> [] then QMeasure spec
      else if DefaultMeasure (applyOptions opts) \<noteq> [] then DefaultMeasure (applyOptions opts)
      else ''amount'')"

text \<open>A query takes the ratio path when its aggregation is \<open>ratio\<close> and it has compare filters.\<close>

definition ratio_query :: "QuerySpec \<Rightarrow> bool" where
  "ratio_query spec = (Aggregation spec = ''ratio'' \<and> CompareFilters spec \<noteq> None)"

text \<open>The currency options are fully configured: base currency, dimension and a non-empty rate table.\<close>

definition currency_configured :: "config \<Rightarrow> bool" where
  "currency_configured cfg =
     (BaseCurrency cfg \<noteq> [] \<and> CurrencyDimension cfg \<noteq> [] \<and> ExchangeRates cfg \<noteq> [])"


text \<open>The number of reads \<open>DiscoverFromCSV\<close> allows, and its test for a recovery override.\<close>

definition sample_limit :: "DiscoverOptions list \<Rightarrow> nat" where
  "sample_limit opts =
     (let opt = (if length opts > 0 then opts ! 0 else DefaultDiscoverOptions)
      in if SampleSize opt \<le> 0 then 100000 else nat (SampleSize opt))"

definition recover_named :: "denv \<Rightarrow> DiscoverOptions list \<Rightarrow> string \<Rightarrow> bool" where
  "recover_named env opts hdr =
     (let opt = (if length opts > 0 then opts ! 0 else DefaultDiscoverOptions);
          recoverSet = set (map (LowerCase env) (RecoverColumns opt))
      in LowerCase env hdr \<in> recoverSet \<or> toSnakeCase env hdr \<in> recoverSet)"








text \<open>
  The words of the specification about refinement. \<open>config_refs\<close> collects the addresses a
  \<open>Config\<close> pointer leads to: the struct, its slices, the slices of their elements, the
  currency struct and its map. \<open>merge_enrichments\<close> is the merge on the contents: names,
  descriptions, units and sort hints are overwritten by non-empty suggestions, a default
  aggregation by a suggestion from the whitelist, and a parent is suggested only to a
  dimension that has none.
\<close>

definition config_refs :: "store \<Rightarrow> addr \<Rightarrow> addr set" where
  "config_refs h a =
     (case config_at h a of
        None \<Rightarrow> {a}
      | Some c \<Rightarrow>
          {a} \<union> set_option (CfgDimensions c)
              \<union> (\<Union>d \<in> set (dim_array h (CfgDimensions c)). set_option (SampleValues d))
              \<union> set_option (CfgMeasures c)
              \<union> (\<Union>m \<in> set (mes_array h (CfgMeasures c)). set_option (Aggregations m))
              \<union> set_option (CfgSkippedColumns c)
              \<union> set_option (CfgCurrency c)
              \<union> (case CfgCurrency c of
                   None \<Rightarrow> {}
                 | Some ca \<Rightarrow> (case currency_at h ca of None \<Rightarrow> {} | Some cu \<Rightarrow> set_option (Rates cu))))"

definition merge_enrichments :: "string \<Rightarrow> ConfigV \<Rightarrow> refineEnrichment \<Rightarrow> ConfigV" where
  "merge_enrichments stamp content enrichment =
     content\<lparr> CfgName := (if DatasetName enrichment \<noteq> [] then DatasetName enrichment
                           else CfgName content),
              CfgDescription := (if DatasetDescription enrichment \<noteq> [] then DatasetDescription enrichment
                                 else CfgDescription content),
              CfgDimensions := fold (\<lambda>hs ds. map (suggest_parent hs) ds)
                                    (SuggestedHierarchies enrichment)
                                    (map (enrich_dim (enrichMap_of (Enrichments enrichment)))
                                         (CfgDimensions content)),
              CfgMeasures := map (enrich_mes (enrichMap_of (Enrichments enrichment)))
                                 (CfgMeasures content),
              RefinedAt := stamp, RefinedBy := ''gemini'' \<rparr>"

definition with_defaults :: "RefineConfig \<Rightarrow> RefineConfig" where
  "with_defaults cfg =
     (let cfg1 = (if Model cfg = [] then cfg\<lparr> Model := ''gemini-2.5-flash-lite'' \<rparr> else cfg)
      in if Endpoint cfg1 = []
         then cfg1\<lparr> Endpoint := ''https://generativelanguage.googleapis.com/v1beta/models'' \<rparr>
         else cfg1)"

text \<open>
  A \<open>Config\<close> pointer is closed in a store when every address it leads to is allocated.
  \<open>copy_inv n h r v\<close> describes a copy under construction: the pointer \<open>r\<close> leads to a
  \<open>Config\<close> with a dimension array and a measure array, its contents are \<open>v\<close>, and every
  address it leads to was allocated at position \<open>n\<close> or later.
\<close>

definition valid_ref :: "store \<Rightarrow> addr option \<Rightarrow> bool" where
  "valid_ref h p = (case p of None \<Rightarrow> True | Some a \<Rightarrow> a < length h)"

definition closed_config :: "store \<Rightarrow> addr \<Rightarrow> bool" where
  "closed_config h a = (\<forall>b \<in> config_refs h a. b < length h)"

definition copy_inv :: "nat \<Rightarrow> store \<Rightarrow> addr \<Rightarrow> ConfigV \<Rightarrow> bool" where
  "copy_inv n h r v =
     (\<exists>c ad am dsH msH.
         config_at h r = Some c \<and> CfgDimensions c = Some ad \<and> CfgMeasures c = Some am \<and>
         obj_at h ad = Some (DimArray dsH) \<and> obj_at h am = Some (MesArray msH) \<and>
         load_config h r = Some v \<and>
         (\<forall>a \<in> config_refs h r. n \<le> a \<and> a < length h))"

section \<open>Filter correctness\<close>

lemma in_map_keys: "k \<in> set (map_keys m) \<longleftrightarrow> map_of m k \<noteq> None"
  by (simp add: map_keys_def map_of_eq_None_iff)

lemma sets_mem:
  "(dm, s) \<in> set (concat (map (\<lambda>dm. case map_of m dm of None \<Rightarrow> []
        | Some allowed \<Rightarrow> if length allowed > 0 then [(dm, toLowerSet lower allowed)] else []) (map_keys m)))
   \<longleftrightarrow> (\<exists>allowed. map_of m dm = Some allowed \<and> allowed \<noteq> [] \<and> s = toLowerSet lower allowed)"
  (is "?L \<longleftrightarrow> ?R")
proof
  assume ?L
  then obtain k where k: "k \<in> set (map_keys m)"
    and mem: "(dm, s) \<in> set (case map_of m k of None \<Rightarrow> []
        | Some allowed \<Rightarrow> if length allowed > 0 then [(k, toLowerSet lower allowed)] else [])"
    by auto
  then show ?R by (cases "map_of m k") (auto split: if_splits)
next
  assume ?R
  then obtain allowed where a: "map_of m dm = Some allowed" "allowed \<noteq> []" "s = toLowerSet lower allowed"
    by blast
  then have "dm \<in> set (map_keys m)" by (simp add: in_map_keys)
  moreover have "(dm, s) \<in> set (case map_of m dm of None \<Rightarrow> []
        | Some allowed \<Rightarrow> if length allowed > 0 then [(dm, toLowerSet lower allowed)] else [])"
    using a by simp
  ultimately show ?L by auto
qed

lemma ApplyFilters_cases:
  "ApplyFilters lower view filters = view \<and> (\<forall>dm. \<not> HasFilter filters dm)
   \<or> ApplyFilters lower view filters =
        newSubView view
          (filter (\<lambda>i. \<forall>dm. HasFilter filters dm \<longrightarrow>
                      lower (Dimension view i dm)
                        \<in> toLowerSet lower (the (map_of (FDimensions filters) dm)))
             [0..<Len view])"
proof (cases "IsEmpty filters")
  case True
  have "\<not> HasFilter filters dm" for dm
  proof (cases "map_of (FDimensions filters) dm")
    case None then show ?thesis by (simp add: HasFilter_def)
  next
    case (Some vals)
    then have "dm \<in> set (map_keys (FDimensions filters))"
      by (simp add: in_map_keys)
    with True Some show ?thesis by (auto simp: IsEmpty_def HasFilter_def list_all_iff)
  qed
  with True show ?thesis by (simp add: ApplyFilters_def)
next
  case False
  let ?sets = "concat (map (\<lambda>dm. case map_of (FDimensions filters) dm of None \<Rightarrow> []
        | Some allowed \<Rightarrow> if length allowed > 0 then [(dm, toLowerSet lower allowed)] else []) (map_keys (FDimensions filters)))"
  have pass: "list_all (\<lambda>(dm, s). lower (Dimension view i dm) \<in> s) ?sets
      \<longleftrightarrow> (\<forall>dm. HasFilter filters dm \<longrightarrow>
                      lower (Dimension view i dm)
                        \<in> toLowerSet lower (the (map_of (FDimensions filters) dm)))" (is "?A \<longleftrightarrow> ?B") for i
  proof
    assume A: ?A
    show ?B
    proof (intro allI impI)
      fix dm assume "HasFilter filters dm"
      then obtain allowed where al: "map_of (FDimensions filters) dm = Some allowed" "allowed \<noteq> []"
        by (auto simp: HasFilter_def split: option.splits)
      then have "(dm, toLowerSet lower allowed) \<in> set ?sets"
        unfolding sets_mem by blast
      with A have "lower (Dimension view i dm) \<in> toLowerSet lower allowed"
        unfolding list_all_iff by fast
      with al show "lower (Dimension view i dm) \<in> toLowerSet lower (the (map_of (FDimensions filters) dm))"
        by simp
    qed
  next
    assume B: ?B
    show ?A unfolding list_all_iff
    proof (intro ballI)
      fix p assume p: "p \<in> set ?sets"
      obtain dm s where ps: "p = (dm, s)" by (cases p)
      from p ps have "(dm, s) \<in> set ?sets" by simp
      then obtain allowed where al: "map_of (FDimensions filters) dm = Some allowed" "allowed \<noteq> []"
         "s = toLowerSet lower allowed"
        using sets_mem[of dm s lower "FDimensions filters"] by blast
      then have "HasFilter filters dm" by (simp add: HasFilter_def)
      with B al ps show "case p of (dm, s) \<Rightarrow> lower (Dimension view i dm) \<in> s" by auto
    qed
  qed
  show ?thesis
  proof (cases "length ?sets = 0")
    case True
    have "\<not> HasFilter filters dm" for dm
    proof
      assume "HasFilter filters dm"
      then obtain allowed where al: "map_of (FDimensions filters) dm = Some allowed" "allowed \<noteq> []"
        by (auto simp: HasFilter_def split: option.splits)
      then have "(dm, toLowerSet lower allowed) \<in> set ?sets"
        unfolding sets_mem by blast
      with True show False by simp
    qed
    with False True show ?thesis by (simp add: ApplyFilters_def Let_def)
  next
    case nz: False
    have "ApplyFilters lower view filters = newSubView view
          (filter (\<lambda>i. list_all (\<lambda>(dm, s). lower (Dimension view i dm) \<in> s) ?sets) [0..<Len view])"
      using False nz unfolding ApplyFilters_def Let_def by (simp only: if_False)
    then show ?thesis unfolding pass by simp
  qed
qed

text \<open>
  Claim C1. For every view and every filter set \<open>F\<close>, the view that \<open>ApplyFilters\<close>
  returns is no longer than the original, and every record it retains satisfies, for every
  dimension that \<open>F\<close> constrains (a key with a non-empty allow-list, as \<open>HasFilter\<close> has
  it), that its lower-cased value is one of the lower-cased allowed values: AND across
  dimensions, OR within one, case-insensitive. It holds for any lower-casing function.
\<close>

theorem ApplyFilters_filter_correct:
  "Len (ApplyFilters lower view F) \<le> Len view \<and>
   (\<forall>i < Len (ApplyFilters lower view F). \<forall>dm allowed.
      map_of (FDimensions F) dm = Some allowed \<and> allowed \<noteq> [] \<longrightarrow>
      lower (Dimension (ApplyFilters lower view F) i dm) \<in> set (map lower allowed))"
proof -
  let ?P = "\<lambda>i. \<forall>dm. HasFilter F dm \<longrightarrow>
                      lower (Dimension view i dm) \<in> toLowerSet lower (the (map_of (FDimensions F) dm))"
  let ?idx = "filter ?P [0..<Len view]"
  from ApplyFilters_cases[of lower view F]
  show ?thesis
  proof
    assume "ApplyFilters lower view F = view \<and> (\<forall>dm. \<not> HasFilter F dm)"
    then show ?thesis by (auto simp: HasFilter_def split: option.splits)
  next
    assume eq: "ApplyFilters lower view F = newSubView view ?idx"
    have len: "length ?idx \<le> Len view"
      using length_filter_le[of ?P "[0..<Len view]"] by simp
    have "lower (Dimension (newSubView view ?idx) i dm) \<in> set (map lower allowed)"
      if i: "i < length ?idx" and al: "map_of (FDimensions F) dm = Some allowed" "allowed \<noteq> []"
      for i dm allowed
    proof -
      have "?idx ! i \<in> set ?idx" using i by (rule nth_mem)
      then have "?P (?idx ! i)" by simp
      moreover have "HasFilter F dm" using al by (simp add: HasFilter_def)
      ultimately have "lower (Dimension view (?idx ! i) dm)
           \<in> toLowerSet lower (the (map_of (FDimensions F) dm))" by blast
      then show ?thesis using al i by (simp add: newSubView_def toLowerSet_def)
    qed
    with len eq show ?thesis by (simp add: newSubView_def)
  qed
qed

theorem ApplyFilters_filter_correct_witness:
  "Len (ApplyFilters ascii_lower (NewSliceView demo_records) demo_filters) = 2 \<and>
   map_of (FDimensions demo_filters) ''category'' = Some [''expense''] \<and>
   ascii_lower (Dimension (ApplyFilters ascii_lower (NewSliceView demo_records) demo_filters) 1 ''category'')
      \<in> set (map ascii_lower [''expense''])"
proof -
  have l: "Len (ApplyFilters ascii_lower (NewSliceView demo_records) demo_filters) = 2"
    by code_simp
  have m: "map_of (FDimensions demo_filters) ''category'' = Some [''expense'']"
    by (simp add: demo_filters_def)
  from ApplyFilters_filter_correct[of ascii_lower "NewSliceView demo_records" demo_filters,
      THEN conjunct2, rule_format, of 1 "''category''" "[''expense'']"] l m
  show ?thesis by simp
qed


section \<open>Grouping without keys\<close>

lemma sort_Slice_single: "sort_Slice lessFn [g] = [g]"
  by (simp add: sort_Slice_def)

lemma SortGroups_single: "SortGroups lower [g] sortBy = [g]"
  by (simp add: SortGroups_def sort_Slice_single)

lemma aggregateGroup_fields:
  "Count (aggregateGroup g m a) = Len (View g)"
  "View (aggregateGroup g m a) = View g"
  "Key (aggregateGroup g m a) = Key g"
  "Label (aggregateGroup g m a) = Label g"
  "SubGroups (aggregateGroup g m a) = SubGroups g"
  by (simp_all add: aggregateGroup_def Let_def)

text \<open>
  Claim C5, amended. For every non-empty view, \<open>GroupAndAggregate\<close> called with zero
  group-by keys yields exactly one group, the synthetic group \<open>all\<close> over the whole view,
  and that group's count equals the view's length. (On the empty view the function
  returns no group at all: \<open>GroupAndAggregate_no_keys_empty_view\<close>.)
\<close>

theorem GroupAndAggregate_no_keys:
  assumes "Len view > 0"
  shows "\<exists>g. GroupAndAggregate lower view [] measureKey aggregation sortBy limit = [g]
             \<and> Count g = Len view \<and> View g = view \<and> Key g = ''all'' \<and> SubGroups g = []"
proof -
  let ?g0 = "Group ''all'' ''Total'' 0 0 [] view"
  let ?g' = "aggregateGroup ?g0 measureKey aggregation"
  let ?g = "Group (Key ?g') (Label ?g') (Value ?g') (Count ?g')
              (map (\<lambda>s. aggregateGroup s measureKey aggregation) (SubGroups ?g')) (View ?g')"
  have "GroupAndAggregate lower view [] measureKey aggregation sortBy limit = [?g]"
    using assms by (simp add: GroupAndAggregate_def Let_def SortGroups_single)
  moreover have "Count ?g = Len view" "View ?g = view" "Key ?g = ''all''" "SubGroups ?g = []"
    by (simp_all add: aggregateGroup_fields)
  ultimately show ?thesis by blast
qed

theorem GroupAndAggregate_no_keys_witness:
  "\<exists>g. GroupAndAggregate ascii_lower (NewSliceView demo_records) [] ''amount'' ''sum'' ''value_desc'' 5 = [g]
       \<and> Count g = 3"
proof -
  have l: "Len (NewSliceView demo_records) = 3" by (simp add: NewSliceView_def demo_records_def)
  then have "Len (NewSliceView demo_records) > 0" by simp
  from GroupAndAggregate_no_keys[OF this, of ascii_lower "''amount''" "''sum''" "''value_desc''" 5] l
  show ?thesis by auto
qed

theorem GroupAndAggregate_no_keys_empty_view:
  "GroupAndAggregate ascii_lower (NewSliceView []) [] ''amount'' ''sum'' ''value_desc'' 0 = []"
  by (simp add: GroupAndAggregate_def NewSliceView_def)


section \<open>Growth analysis\<close>

subsection \<open>The map of month totals\<close>









subsection \<open>Sorting by an integer key\<close>









subsection \<open>The growth figures\<close>







section \<open>Ratio analysis\<close>











section \<open>The executor\<close>

lemma ApplyFilters_len_le: "Len (ApplyFilters lower view F) \<le> Len view"
proof -
  from ApplyFilters_cases[of lower view F] show ?thesis
  proof
    assume "ApplyFilters lower view F = view \<and> (\<forall>dm. \<not> HasFilter F dm)"
    then show ?thesis by simp
  next
    assume eq: "ApplyFilters lower view F =
        newSubView view
          (filter (\<lambda>i. \<forall>dm. HasFilter F dm \<longrightarrow>
                      lower (Dimension view i dm)
                        \<in> toLowerSet lower (the (map_of (FDimensions F) dm)))
             [0..<Len view])"
    show ?thesis unfolding eq
      using length_filter_le[of _ "[0..<Len view]"] by (simp add: newSubView_def)
  qed
qed


lemma currencies_fold_none:
  assumes "\<forall>i \<in> set idxs. Dimension view i d = []"
  shows "fold (\<lambda>i cs. let c = Dimension view i d in
                  if c \<noteq> [] \<and> c \<notin> set cs then cs @ [c] else cs) idxs cs = cs"
  using assms by (induction idxs arbitrary: cs) (auto simp: Let_def)


lemma detectDisplayCurrency_none:
  assumes "Len view > 0" and "\<forall>i < Len view. Dimension view i d = []"
  shows "detectDisplayCurrency view d b = (b, True)"
proof -
  have "\<forall>i \<in> set [0..<Len view]. Dimension view i d = []" using assms(2) by simp
  from currencies_fold_none[OF this, of "[]"] assms(1)
  show ?thesis by (simp add: detectDisplayCurrency_def Let_def)
qed

lemma Execute_build_fields:
  "DisplayUnit (Execute_build env spec v mk u n) = u"
  "ShouldConvert (Execute_build env spec v mk u n) = n"
  "Success (Execute_build env spec v mk u n)"
  by (simp_all add: Execute_build_def Let_def split: option.splits)

lemma Execute_main_path:
  assumes "Len (ApplyFilters (ToLower env) view (QFilters spec)) > 0" and "\<not> ratio_query spec"
  shows "Execute env spec view opts =
           (case Execute_currency (applyOptions opts) (resolved_measure spec opts)
                   (ApplyFilters (ToLower env) view (QFilters spec)) of
              (filtered1, displayUnit, needsConversion) \<Rightarrow>
                Inr (Execute_build env spec filtered1 (resolved_measure spec opts) displayUnit needsConversion))"
proof -
  have "Len view > 0"
    using assms(1) ApplyFilters_len_le[of "ToLower env" view "QFilters spec"] by simp
  then show ?thesis
    using assms unfolding Execute_def resolved_measure_def ratio_query_def Let_def
    by (auto split: prod.splits)
qed






text \<open>
  Claim C10, amended. For every query that does not take the ratio path: when the currency
  options are fully configured and the non-empty filtered view has an empty currency
  value in every record, \<open>Execute\<close> wraps the view in the currency-normalizing view, sets the
  display unit to the base currency and sets \<open>ShouldConvert\<close> to true; and unless the rate
  table has an entry for the empty code, the wrapped view returns every measure value
  unchanged.
\<close>

theorem Execute_uncoded_currency:
  assumes "\<not> ratio_query spec"
      and "Len (ApplyFilters (ToLower env) view (QFilters spec)) > 0"
      and "currency_configured (applyOptions opts)"
      and "\<forall>i < Len (ApplyFilters (ToLower env) view (QFilters spec)).
             Dimension (ApplyFilters (ToLower env) view (QFilters spec)) i
               (CurrencyDimension (applyOptions opts)) = []"
  shows "\<exists>r. Execute env spec view opts = Inr r
          \<and> r = Execute_build env spec
                  (newCurrencyView (ApplyFilters (ToLower env) view (QFilters spec))
                     (resolved_measure spec opts) (CurrencyDimension (applyOptions opts))
                     (BaseCurrency (applyOptions opts)) (ExchangeRates (applyOptions opts)))
                  (resolved_measure spec opts) (BaseCurrency (applyOptions opts)) True
          \<and> DisplayUnit r = BaseCurrency (applyOptions opts)
          \<and> ShouldConvert r = True
          \<and> (map_of (ExchangeRates (applyOptions opts)) [] = None \<longrightarrow>
               (\<forall>i < Len (ApplyFilters (ToLower env) view (QFilters spec)). \<forall>key.
                  Measure (newCurrencyView (ApplyFilters (ToLower env) view (QFilters spec))
                     (resolved_measure spec opts) (CurrencyDimension (applyOptions opts))
                     (BaseCurrency (applyOptions opts)) (ExchangeRates (applyOptions opts))) i key
                  = Measure (ApplyFilters (ToLower env) view (QFilters spec)) i key))"
proof -
  let ?cfg = "applyOptions opts"
  let ?f = "ApplyFilters (ToLower env) view (QFilters spec)"
  have m: "Measure (newCurrencyView ?f (resolved_measure spec opts) (CurrencyDimension ?cfg)
                     (BaseCurrency ?cfg) (ExchangeRates ?cfg)) i key = Measure ?f i key"
    if "map_of (ExchangeRates ?cfg) [] = None" "i < Len ?f" for i key
    using that assms(4) by (simp add: newCurrencyView_def Let_def)
  have d: "detectDisplayCurrency ?f (CurrencyDimension ?cfg) (BaseCurrency ?cfg) = (BaseCurrency ?cfg, True)"
    by (rule detectDisplayCurrency_none[OF assms(2,4)])
  have "Execute_currency ?cfg (resolved_measure spec opts) ?f =
          (newCurrencyView ?f (resolved_measure spec opts) (CurrencyDimension ?cfg)
             (BaseCurrency ?cfg) (ExchangeRates ?cfg), BaseCurrency ?cfg, True)"
    using assms(3) d by (simp add: Execute_currency_def currency_configured_def Let_def)
  then show ?thesis
    unfolding Execute_main_path[OF assms(2,1)] using m by (simp add: Execute_build_fields)
qed

theorem Execute_uncoded_currency_witness:
  "DisplayUnit (projr (Execute demo_env demo_spec (NewSliceView uncoded_records)
                         [WithCurrency ''SGD'' ''currency'' demo_rates])) = ''SGD''
   \<and> ShouldConvert (projr (Execute demo_env demo_spec (NewSliceView uncoded_records)
                         [WithCurrency ''SGD'' ''currency'' demo_rates])) = True"
proof -
  let ?opts = "[WithCurrency ''SGD'' ''currency'' demo_rates]"
  let ?f = "ApplyFilters (ToLower demo_env) (NewSliceView uncoded_records) (QFilters demo_spec)"
  have f: "?f = NewSliceView uncoded_records"
    by (simp add: ApplyFilters_def IsEmpty_def demo_spec_def map_keys_def)
  have cfg: "CurrencyDimension (applyOptions ?opts) = ''currency''" "currency_configured (applyOptions ?opts)"
    "BaseCurrency (applyOptions ?opts) = ''SGD''"
    by (simp_all add: applyOptions_def WithCurrency_def currency_configured_def demo_rates_def)
  have a1: "\<not> ratio_query demo_spec" by (simp add: ratio_query_def demo_spec_def)
  have a2: "Len ?f > 0" unfolding f by (simp add: NewSliceView_def uncoded_records_def)
  have a4: "\<forall>i < Len ?f. Dimension ?f i (CurrencyDimension (applyOptions ?opts)) = []"
    unfolding f cfg by (simp add: NewSliceView_def uncoded_records_def str_at_def less_Suc_eq)
  from Execute_uncoded_currency[OF a1 a2 cfg(2) a4] cfg(3)
  show ?thesis by auto
qed

theorem Execute_uncoded_currency_ratio_query:
  "map_sum id ShouldConvert
     (Execute demo_env demo_ratio_spec (NewSliceView uncoded_records)
        [WithCurrency ''SGD'' ''currency'' demo_rates]) = Inr False"
  by code_simp






section \<open>Discovery: identifier columns\<close>

lemma classifyRole_frame:
  "header (classifyRole col n) = header col"
  "key (classifyRole col n) = key col"
  "index (classifyRole col n) = index col"
  "uniqueCount (classifyRole col n) = uniqueCount col"
  by (simp_all add: classifyRole_def Let_def split: columnType.splits)

lemma classifyRole_identifier:
  assumes "colType col = typeNumeric \<or> colType col = typeString"
      and "uniqueCount col = n" and "n > 10"
  shows "role (classifyRole col n) = roleSkipped \<and> recoverable (classifyRole col n) = False"
  using assms by (auto simp: classifyRole_def)

lemma classifyRole_date_bool:
  "colType col = typeDate \<or> colType col = typeBool \<Longrightarrow> role (classifyRole col n) = roleDimension"
  by (auto simp: classifyRole_def)

lemma analyzeColumn_frame:
  "header (analyzeColumn env hdr idx rows n) = hdr"
  "key (analyzeColumn env hdr idx rows n) = toSnakeCase env hdr"
  "index (analyzeColumn env hdr idx rows n) = idx"
  "uniqueCount (analyzeColumn env hdr idx rows n) = length (remdups (column_values env idx rows))"
  by (simp_all add: analyzeColumn_def Let_def classifyRole_frame)

lemma analyzeColumn_identifier:
  assumes "distinct (column_values env idx rows)"
      and "length (column_values env idx rows) = length rows"
      and "length rows > 10"
      and "detectType env (column_values env idx rows) = typeNumeric
           \<or> detectType env (column_values env idx rows) = typeString"
  shows "role (analyzeColumn env hdr idx rows (length rows)) = roleSkipped
       \<and> recoverable (analyzeColumn env hdr idx rows (length rows)) = False"
proof -
  let ?vals = "column_values env idx rows"
  have u: "length (remdups ?vals) = length rows" using assms(1,2) by (simp add: distinct_remdups_id)
  have ne: "length ?vals \<noteq> 0" using assms(2,3) by linarith
  show ?thesis
    using assms(4)
  proof
    assume t: "detectType env ?vals = typeNumeric"
    show ?thesis
      unfolding analyzeColumn_def Let_def using ne t u assms(3)
      by (simp add: classifyRole_identifier)
  next
    assume t: "detectType env ?vals = typeString"
    show ?thesis
      unfolding analyzeColumn_def Let_def using ne t u assms(3)
      by (simp add: classifyRole_identifier)
  qed
qed

text \<open>
  Claim C7, amended. During schema discovery, every numeric or string column in which
  every sampled row holds a non-null value, all these values distinct, with more than 10
  sampled rows, is classified as skipped with \<open>recoverable = false\<close> and, unless the caller
  names it among the columns to recover, is placed in the skipped-columns list. A date or
  boolean column is a dimension whatever its values.
\<close>

theorem DiscoverFromCSV_identifier_skip:
  assumes "csvRead env data (sample_limit opts) = (Inr headers, rows)"
      and "i < length headers"
      and "length rows > 10"
      and "length (column_values env i rows) = length rows"
      and "distinct (column_values env i rows)"
      and "detectType env (column_values env i rows) = typeNumeric
           \<or> detectType env (column_values env i rows) = typeString"
      and "\<not> recover_named env opts (headers ! i)"
  shows "(\<exists>cfg reason. DiscoverFromCSV env data opts = Inr cfg
            \<and> \<lparr> Column = headers ! i, Reason = reason, Recoverable = False \<rparr> \<in> set (CfgSkippedColumns cfg))
       \<and> (\<forall>col n. colType col = typeDate \<or> colType col = typeBool
              \<longrightarrow> role (classifyRole col n) = roleDimension)"
proof -
  let ?col = "analyzeColumn env (headers ! i) i rows (length rows)"
  let ?opt = "if length opts > 0 then opts ! 0 else DefaultDiscoverOptions"
  let ?recovered = "\<lambda>col. LowerCase env (header col) \<in> set (map (LowerCase env) (RecoverColumns ?opt))
                          \<or> key col \<in> set (map (LowerCase env) (RecoverColumns ?opt))"
  let ?columns = "map (\<lambda>i. analyzeColumn env (headers ! i) i rows (length rows)) [0..<length headers]"
  let ?skipped = "concat (map (\<lambda>col.
                         if role col = roleSkipped \<and> \<not> ?recovered col
                         then [\<lparr> Column = header col, Reason = skipReason col,
                                  Recoverable = recoverable col \<rparr>]
                         else []) ?columns)"
  have r: "role ?col = roleSkipped" "recoverable ?col = False"
    using analyzeColumn_identifier[OF assms(5,4,3,6)] by simp_all
  have nr: "\<not> ?recovered ?col"
    using assms(7) by (simp add: recover_named_def Let_def analyzeColumn_frame)
  have c: "?col \<in> set ?columns" using assms(2) by simp
  have "\<lparr> Column = headers ! i, Reason = skipReason ?col, Recoverable = False \<rparr>
          \<in> set (if role ?col = roleSkipped \<and> \<not> ?recovered ?col
                  then [\<lparr> Column = header ?col, Reason = skipReason ?col,
                           Recoverable = recoverable ?col \<rparr>]
                  else [])"
    using r nr by (simp add: analyzeColumn_frame)
  with c have mem: "\<lparr> Column = headers ! i, Reason = skipReason ?col, Recoverable = False \<rparr> \<in> set ?skipped"
    unfolding set_concat set_map by blast
  have hn: "length headers \<noteq> 0" "length rows \<noteq> 0" using assms(2,3) by auto
  have rd: "csvRead env data
              (if SampleSize ?opt \<le> 0 then 100000 else nat (SampleSize ?opt)) = (Inr headers, rows)"
    using assms(1) unfolding sample_limit_def Let_def .
  have "\<exists>cfg. DiscoverFromCSV env data opts = Inr cfg \<and> CfgSkippedColumns cfg = ?skipped"
    unfolding DiscoverFromCSV_def Let_def
    apply (simp only: rd prod.case sum.case hn if_False)
    apply (rule exI, rule conjI, rule refl)
    apply (simp only: Config.select_convs)
    done
  then obtain cfg where cfg: "DiscoverFromCSV env data opts = Inr cfg"
      and sk: "CfgSkippedColumns cfg = ?skipped"
    by (elim exE conjE)
  have "\<lparr> Column = headers ! i, Reason = skipReason ?col, Recoverable = False \<rparr>
          \<in> set (CfgSkippedColumns cfg)"
    unfolding sk by (rule mem)
  with cfg have "\<exists>cfg reason. DiscoverFromCSV env data opts = Inr cfg
            \<and> \<lparr> Column = headers ! i, Reason = reason, Recoverable = False \<rparr> \<in> set (CfgSkippedColumns cfg)"
    by (intro exI conjI)
  then show ?thesis using classifyRole_date_bool by blast
qed

theorem classifyRole_distinct_dates:
  "uniqueCount date_column = 11 \<and> role (classifyRole date_column 11) = roleDimension"
  by (simp add: classifyRole_def date_column_def)

lemma id_values:
  "column_values (demo_denv id_headers id_rows) 0 id_rows
     = [''T-0'', ''T-1'', ''T-2'', ''T-3'', ''T-4'', ''T-5'', ''T-6'', ''T-7'', ''T-8'', ''T-9'', ''T-10'', ''T-11'']"
  by code_simp

theorem DiscoverFromCSV_identifier_skip_witness:
  "\<exists>cfg reason. DiscoverFromCSV (demo_denv id_headers id_rows) [] [] = Inr cfg
       \<and> \<lparr> Column = ''Id'', Reason = reason, Recoverable = False \<rparr> \<in> set (CfgSkippedColumns cfg)"
proof -
  let ?env = "demo_denv id_headers id_rows"
  have l: "length id_rows = 12" by (simp add: id_rows_def)
  have a1: "csvRead ?env [] (sample_limit []) = (Inr id_headers, id_rows)"
    by (simp add: demo_denv_def sample_limit_def DefaultDiscoverOptions_def l)
  have a2: "0 < length id_headers" by (simp add: id_headers_def)
  have a3: "length id_rows > 10" using l by simp
  have a4: "length (column_values ?env 0 id_rows) = length id_rows" unfolding id_values l by simp
  have a5: "distinct (column_values ?env 0 id_rows)" unfolding id_values by simp
  have a6: "detectType ?env (column_values ?env 0 id_rows) = typeNumeric
           \<or> detectType ?env (column_values ?env 0 id_rows) = typeString"
    by (simp add: demo_denv_def)
  have a7: "\<not> recover_named ?env [] (id_headers ! 0)"
    by (simp add: recover_named_def DefaultDiscoverOptions_def)
  from DiscoverFromCSV_identifier_skip[OF a1 a2 a3 a4 a5 a6 a7]
  show ?thesis by (simp add: id_headers_def)
qed


section \<open>Discovery: hierarchies\<close>

















section \<open>Refinement\<close>

subsection \<open>Reading the store\<close>

lemma obj_at_append: "a < length h \<Longrightarrow> obj_at (h @ xs) a = obj_at h a"
  by (simp add: obj_at_def nth_append)

lemma obj_at_new: "obj_at (h @ x # xs) (length h) = Some x"
  by (simp add: obj_at_def)

lemma obj_at_update:
  "obj_at (h[a := x]) b = (if b = a \<and> a < length h then Some x else obj_at h b)"
  by (auto simp: obj_at_def)

lemma valid_ref_append: "valid_ref h p \<Longrightarrow> valid_ref (h @ xs) p"
  by (auto simp: valid_ref_def split: option.splits)

lemma readers_append:
  assumes "valid_ref h p"
  shows "str_array (h @ xs) p = str_array h p"
    and "dim_array (h @ xs) p = dim_array h p"
    and "mes_array (h @ xs) p = mes_array h p"
    and "skip_array (h @ xs) p = skip_array h p"
    and "rate_map (h @ xs) p = rate_map h p"
  using assms
  by (auto simp: valid_ref_def str_array_def dim_array_def mes_array_def skip_array_def rate_map_def
        obj_at_append split: option.splits)

lemma structs_append:
  assumes "a < length h"
  shows "currency_at (h @ xs) a = currency_at h a"
    and "config_at (h @ xs) a = config_at h a"
  using assms by (simp_all add: currency_at_def config_at_def obj_at_append)

text \<open>An update that keeps the kind of the object leaves every read of another kind alone.\<close>

lemma readers_update_dims:
  assumes "obj_at h a = Some (DimArray xs)"
  shows "str_array (h[a := DimArray ys]) p = str_array h p"
    and "mes_array (h[a := DimArray ys]) p = mes_array h p"
    and "skip_array (h[a := DimArray ys]) p = skip_array h p"
    and "rate_map (h[a := DimArray ys]) p = rate_map h p"
    and "currency_at (h[a := DimArray ys]) b = currency_at h b"
    and "config_at (h[a := DimArray ys]) b = config_at h b"
    and "dim_array (h[a := DimArray ys]) p = (if p = Some a then ys else dim_array h p)"
  using assms
  by (auto simp: str_array_def dim_array_def mes_array_def skip_array_def rate_map_def
        currency_at_def config_at_def obj_at_def nth_list_update split: option.splits if_splits)

lemma readers_update_measures:
  assumes "obj_at h a = Some (MesArray xs)"
  shows "str_array (h[a := MesArray ys]) p = str_array h p"
    and "dim_array (h[a := MesArray ys]) p = dim_array h p"
    and "skip_array (h[a := MesArray ys]) p = skip_array h p"
    and "rate_map (h[a := MesArray ys]) p = rate_map h p"
    and "currency_at (h[a := MesArray ys]) b = currency_at h b"
    and "config_at (h[a := MesArray ys]) b = config_at h b"
    and "mes_array (h[a := MesArray ys]) p = (if p = Some a then ys else mes_array h p)"
  using assms
  by (auto simp: str_array_def dim_array_def mes_array_def skip_array_def rate_map_def
        currency_at_def config_at_def obj_at_def nth_list_update split: option.splits if_splits)

lemma readers_update_config:
  assumes "obj_at h a = Some (ConfigObj c)"
  shows "str_array (h[a := ConfigObj c']) p = str_array h p"
    and "dim_array (h[a := ConfigObj c']) p = dim_array h p"
    and "mes_array (h[a := ConfigObj c']) p = mes_array h p"
    and "skip_array (h[a := ConfigObj c']) p = skip_array h p"
    and "rate_map (h[a := ConfigObj c']) p = rate_map h p"
    and "currency_at (h[a := ConfigObj c']) b = currency_at h b"
    and "config_at (h[a := ConfigObj c']) b = (if b = a then Some c' else config_at h b)"
  using assms
  by (auto simp: str_array_def dim_array_def mes_array_def skip_array_def rate_map_def
        currency_at_def config_at_def obj_at_def nth_list_update split: option.splits if_splits)

subsection \<open>The loops that write in place\<close>

lemma set_dim_loop:
  assumes "obj_at h a = Some (DimArray xs)" and "k \<le> length xs"
  shows "fold (\<lambda>i h. set_dim (Some a) i (f (dim_array h (Some a) ! i)) h) [0..<k] h
           = h[a := DimArray (map f (take k xs) @ drop k xs)]"
  using assms(2)
proof (induction k)
  case 0
  have "h[a := DimArray xs] = h" using assms(1) by (auto simp: obj_at_def list_update_same_conv split: if_splits)
  then show ?case by simp
next
  case (Suc k)
  let ?h = "h[a := DimArray (map f (take k xs) @ drop k xs)]"
  have al: "a < length h" using assms(1) by (auto simp: obj_at_def split: if_splits)
  have oa: "obj_at ?h a = Some (DimArray (map f (take k xs) @ drop k xs))"
    using al by (simp add: obj_at_update)
  have da: "dim_array ?h (Some a) = map f (take k xs) @ drop k xs"
    using oa by (simp add: dim_array_def)
  have k: "k < length xs" using Suc.prems by simp
  have nth: "(map f (take k xs) @ drop k xs) ! k = xs ! k" using k by (simp add: nth_append)
  have upd: "(map f (take k xs) @ drop k xs)[k := f (xs ! k)] = map f (take (Suc k) xs) @ drop (Suc k) xs"
    using k by (simp add: take_Suc_conv_app_nth list_update_append Cons_nth_drop_Suc[symmetric])
  have "fold (\<lambda>i h. set_dim (Some a) i (f (dim_array h (Some a) ! i)) h) [0..<Suc k] h
          = set_dim (Some a) k (f (dim_array ?h (Some a) ! k)) ?h"
    using Suc.IH k by simp
  also have "\<dots> = ?h[a := DimArray ((map f (take k xs) @ drop k xs)[k := f (xs ! k)])]"
    by (simp add: set_dim_def oa da nth)
  also have "\<dots> = h[a := DimArray (map f (take (Suc k) xs) @ drop (Suc k) xs)]"
    by (simp add: upd)
  finally show ?case .
qed

lemma set_mes_loop:
  assumes "obj_at h a = Some (MesArray xs)" and "k \<le> length xs"
  shows "fold (\<lambda>i h. set_mes (Some a) i (f (mes_array h (Some a) ! i)) h) [0..<k] h
           = h[a := MesArray (map f (take k xs) @ drop k xs)]"
  using assms(2)
proof (induction k)
  case 0
  have "h[a := MesArray xs] = h" using assms(1) by (auto simp: obj_at_def list_update_same_conv split: if_splits)
  then show ?case by simp
next
  case (Suc k)
  let ?h = "h[a := MesArray (map f (take k xs) @ drop k xs)]"
  have al: "a < length h" using assms(1) by (auto simp: obj_at_def split: if_splits)
  have oa: "obj_at ?h a = Some (MesArray (map f (take k xs) @ drop k xs))"
    using al by (simp add: obj_at_update)
  have da: "mes_array ?h (Some a) = map f (take k xs) @ drop k xs"
    using oa by (simp add: mes_array_def)
  have k: "k < length xs" using Suc.prems by simp
  have nth: "(map f (take k xs) @ drop k xs) ! k = xs ! k" using k by (simp add: nth_append)
  have upd: "(map f (take k xs) @ drop k xs)[k := f (xs ! k)] = map f (take (Suc k) xs) @ drop (Suc k) xs"
    using k by (simp add: take_Suc_conv_app_nth list_update_append Cons_nth_drop_Suc[symmetric])
  have "fold (\<lambda>i h. set_mes (Some a) i (f (mes_array h (Some a) ! i)) h) [0..<Suc k] h
          = set_mes (Some a) k (f (mes_array ?h (Some a) ! k)) ?h"
    using Suc.IH k by simp
  also have "\<dots> = ?h[a := MesArray ((map f (take k xs) @ drop k xs)[k := f (xs ! k)])]"
    by (simp add: set_mes_def oa da nth)
  also have "\<dots> = h[a := MesArray (map f (take (Suc k) xs) @ drop (Suc k) xs)]"
    by (simp add: upd)
  finally show ?case .
qed

lemma modify_dims_eq:
  assumes "config_at h r = Some c" and "CfgDimensions c = Some a" and "obj_at h a = Some (DimArray xs)"
  shows "modify_dims r f h = h[a := DimArray (map f xs)]"
proof -
  have "dim_array h (Some a) = xs" using assms(3) by (simp add: dim_array_def)
  then show ?thesis
    using assms(1,2) set_dim_loop[OF assms(3), of "length xs" f]
    by (simp add: modify_dims_def)
qed

lemma modify_measures_eq:
  assumes "config_at h r = Some c" and "CfgMeasures c = Some a" and "obj_at h a = Some (MesArray xs)"
  shows "modify_measures r f h = h[a := MesArray (map f xs)]"
proof -
  have "mes_array h (Some a) = xs" using assms(3) by (simp add: mes_array_def)
  then show ?thesis
    using assms(1,2) set_mes_loop[OF assms(3), of "length xs" f]
    by (simp add: modify_measures_def)
qed

lemma modify_config_eq:
  assumes "config_at h r = Some c"
  shows "modify_config r f h = h[r := ConfigObj (f c)]"
  using assms by (auto simp: modify_config_def set_config_def config_at_def split: option.splits obj.splits)


subsection \<open>The deep copy allocates and never writes\<close>

lemma load_dim_append:
  "valid_ref h (SampleValues d) \<Longrightarrow> load_dim (h @ xs) d = load_dim h d"
  by (simp add: load_dim_def readers_append)

lemma load_mes_append:
  "valid_ref h (Aggregations m) \<Longrightarrow> load_mes (h @ xs) m = load_mes h m"
  by (simp add: load_mes_def readers_append)

lemma copy_dims_props:
  assumes "\<forall>d \<in> set ds. valid_ref h (SampleValues d)"
  shows "\<exists>news. snd (copy_dims ds h) = h @ news
        \<and> (\<forall>d' \<in> set (fst (copy_dims ds h)).
              \<exists>a. SampleValues d' = Some a \<and> length h \<le> a \<and> a < length (h @ news))
        \<and> (\<forall>ext. map (load_dim (h @ news @ ext)) (fst (copy_dims ds h)) = map (load_dim h) ds)"
  using assms
proof (induction ds arbitrary: h)
  case Nil
  show ?case by (intro exI[of _ "[]"]) simp
next
  case (Cons d ds)
  let ?sa = "StrArray (str_array h (SampleValues d))"
  let ?h1 = "h @ [?sa]"
  have v1: "\<forall>d \<in> set ds. valid_ref ?h1 (SampleValues d)"
    using Cons.prems by (simp add: valid_ref_append)
  from Cons.IH[OF v1] obtain news where n:
    "snd (copy_dims ds ?h1) = ?h1 @ news"
    "\<forall>d' \<in> set (fst (copy_dims ds ?h1)).
        \<exists>a. SampleValues d' = Some a \<and> length ?h1 \<le> a \<and> a < length (?h1 @ news)"
    "\<forall>ext. map (load_dim (?h1 @ news @ ext)) (fst (copy_dims ds ?h1)) = map (load_dim ?h1) ds"
    by blast
  have fst_eq: "fst (copy_dims (d # ds) h) = d\<lparr> SampleValues := Some (length h) \<rparr> # fst (copy_dims ds ?h1)"
    and snd_eq: "snd (copy_dims (d # ds) h) = snd (copy_dims ds ?h1)"
    by (simp_all add: alloc_def Let_def split: prod.splits)
  have head: "load_dim (h @ (?sa # news) @ ext) (d\<lparr> SampleValues := Some (length h) \<rparr>) = load_dim h d" for ext
    by (simp add: load_dim_def str_array_def obj_at_new)
  have tail: "map (load_dim (h @ (?sa # news) @ ext)) (fst (copy_dims ds ?h1)) = map (load_dim h) ds" for ext
  proof -
    have "map (load_dim (h @ (?sa # news) @ ext)) (fst (copy_dims ds ?h1))
            = map (load_dim ?h1) ds" using n(3)[rule_format, of ext] by simp
    also have "\<dots> = map (load_dim h) ds"
      using Cons.prems by (intro map_cong refl load_dim_append) simp
    finally show ?thesis .
  qed
  show ?case
  proof (intro exI[of _ "?sa # news"] conjI)
    show "snd (copy_dims (d # ds) h) = h @ ?sa # news" unfolding snd_eq n(1) by simp
    show "\<forall>d' \<in> set (fst (copy_dims (d # ds) h)).
            \<exists>a. SampleValues d' = Some a \<and> length h \<le> a \<and> a < length (h @ ?sa # news)"
      unfolding fst_eq using n(2) by (auto dest!: bspec)
    show "\<forall>ext. map (load_dim (h @ (?sa # news) @ ext)) (fst (copy_dims (d # ds) h))
            = map (load_dim h) (d # ds)"
      unfolding fst_eq using head tail by simp
  qed
qed

lemma copy_measures_props:
  assumes "\<forall>m \<in> set ms. valid_ref h (Aggregations m)"
  shows "\<exists>news. snd (copy_measures ms h) = h @ news
        \<and> (\<forall>m' \<in> set (fst (copy_measures ms h)).
              \<exists>a. Aggregations m' = Some a \<and> length h \<le> a \<and> a < length (h @ news))
        \<and> (\<forall>ext. map (load_mes (h @ news @ ext)) (fst (copy_measures ms h)) = map (load_mes h) ms)"
  using assms
proof (induction ms arbitrary: h)
  case Nil
  show ?case by (intro exI[of _ "[]"]) simp
next
  case (Cons m ms)
  let ?sa = "StrArray (str_array h (Aggregations m))"
  let ?h1 = "h @ [?sa]"
  have v1: "\<forall>m \<in> set ms. valid_ref ?h1 (Aggregations m)"
    using Cons.prems by (simp add: valid_ref_append)
  from Cons.IH[OF v1] obtain news where n:
    "snd (copy_measures ms ?h1) = ?h1 @ news"
    "\<forall>m' \<in> set (fst (copy_measures ms ?h1)).
        \<exists>a. Aggregations m' = Some a \<and> length ?h1 \<le> a \<and> a < length (?h1 @ news)"
    "\<forall>ext. map (load_mes (?h1 @ news @ ext)) (fst (copy_measures ms ?h1)) = map (load_mes ?h1) ms"
    by blast
  have fst_eq: "fst (copy_measures (m # ms) h) = m\<lparr> Aggregations := Some (length h) \<rparr> # fst (copy_measures ms ?h1)"
    and snd_eq: "snd (copy_measures (m # ms) h) = snd (copy_measures ms ?h1)"
    by (simp_all add: alloc_def Let_def split: prod.splits)
  have head: "load_mes (h @ (?sa # news) @ ext) (m\<lparr> Aggregations := Some (length h) \<rparr>) = load_mes h m" for ext
    by (simp add: load_mes_def str_array_def obj_at_new)
  have tail: "map (load_mes (h @ (?sa # news) @ ext)) (fst (copy_measures ms ?h1)) = map (load_mes h) ms" for ext
  proof -
    have "map (load_mes (h @ (?sa # news) @ ext)) (fst (copy_measures ms ?h1))
            = map (load_mes ?h1) ms" using n(3)[rule_format, of ext] by simp
    also have "\<dots> = map (load_mes h) ms"
      using Cons.prems by (intro map_cong refl load_mes_append) simp
    finally show ?thesis .
  qed
  show ?case
  proof (intro exI[of _ "?sa # news"] conjI)
    show "snd (copy_measures (m # ms) h) = h @ ?sa # news" unfolding snd_eq n(1) by simp
    show "\<forall>m' \<in> set (fst (copy_measures (m # ms) h)).
            \<exists>a. Aggregations m' = Some a \<and> length h \<le> a \<and> a < length (h @ ?sa # news)"
      unfolding fst_eq using n(2) by (auto dest!: bspec)
    show "\<forall>ext. map (load_mes (h @ (?sa # news) @ ext)) (fst (copy_measures (m # ms) h))
            = map (load_mes h) (m # ms)"
      unfolding fst_eq using head tail by simp
  qed
qed

lemma copy_currency_props:
  assumes "valid_ref h p"
      and "\<forall>ca c. p = Some ca \<and> currency_at h ca = Some c \<longrightarrow> valid_ref h (Rates c)"
  shows "\<exists>news. snd (copy_currency p h) = h @ news
        \<and> (\<forall>ext. load_currency (h @ news @ ext) (fst (copy_currency p h)) = load_currency h p)
        \<and> (\<forall>a. fst (copy_currency p h) = Some a \<longrightarrow>
               length h \<le> a \<and> a < length (h @ news)
               \<and> (\<forall>ext. \<exists>cu r. currency_at (h @ news @ ext) a = Some cu \<and> Rates cu = Some r
                          \<and> length h \<le> r \<and> r < length (h @ news)))"
proof (cases p)
  case None
  show ?thesis by (intro exI[of _ "[]"]) (simp add: None copy_currency_def load_currency_def)
next
  case (Some ca)
  show ?thesis
  proof (cases "currency_at h ca")
    case None
    show ?thesis
      by (intro exI[of _ "[]"]) (simp add: Some None copy_currency_def load_currency_def)
  next
    case cu: (Some c)
    let ?rm = "RateMap (rate_map h (Rates c))"
    let ?co = "CurrencyObj (c\<lparr> Rates := Some (length h) \<rparr>)"
    have eq: "copy_currency p h = (Some (Suc (length h)), h @ [?rm, ?co])"
      by (simp add: Some cu copy_currency_def alloc_def Let_def)
    have c1: "currency_at (h @ ?rm # ?co # ext) (Suc (length h)) = Some (c\<lparr> Rates := Some (length h) \<rparr>)" for ext
      by (simp add: currency_at_def obj_at_def nth_append)
    have r1: "rate_map (h @ ?rm # ?co # ext) (Some (length h)) = rate_map h (Rates c)" for ext
      by (simp add: rate_map_def obj_at_def nth_append)
    show ?thesis
      unfolding eq
      by (intro exI[of _ "[?rm, ?co]"]) (simp add: c1 r1 load_currency_def Some cu)
  qed
qed


lemma load_currency_append:
  assumes "valid_ref h p"
      and "\<forall>ca c. p = Some ca \<and> currency_at h ca = Some c \<longrightarrow> valid_ref h (Rates c)"
  shows "load_currency (h @ xs) p = load_currency h p"
proof (cases p)
  case None then show ?thesis by (simp add: load_currency_def)
next
  case (Some ca)
  then have "ca < length h" using assms(1) by (simp add: valid_ref_def)
  then have c: "currency_at (h @ xs) ca = currency_at h ca" by (rule structs_append)
  show ?thesis
    using assms(2) Some c by (auto simp: load_currency_def readers_append split: option.splits)
qed

lemma closed_configD:
  assumes "closed_config h src" and "config_at h src = Some s"
  shows "valid_ref h (CfgDimensions s)"
    and "\<forall>d \<in> set (dim_array h (CfgDimensions s)). valid_ref h (SampleValues d)"
    and "valid_ref h (CfgMeasures s)"
    and "\<forall>m \<in> set (mes_array h (CfgMeasures s)). valid_ref h (Aggregations m)"
    and "valid_ref h (CfgSkippedColumns s)"
    and "valid_ref h (CfgCurrency s)"
    and "\<forall>ca c. CfgCurrency s = Some ca \<and> currency_at h ca = Some c \<longrightarrow> valid_ref h (Rates c)"
  using assms
  by (auto simp: closed_config_def config_refs_def valid_ref_def split: option.splits)

lemma deepCopyConfig_copy:
  assumes s: "config_at h src = Some s" and cl: "closed_config h src"
      and content: "load_config h src = Some content"
  shows "\<exists>r news. deepCopyConfig h src = Some (r, h @ news)
           \<and> copy_inv (length h) (h @ news) r (content\<lparr> RefinedAt := [], RefinedBy := [] \<rparr>)"
proof -
  note v = closed_configD[OF cl s]
  let ?ds = "dim_array h (CfgDimensions s)"
  obtain n1 where n1: "snd (copy_dims ?ds h) = h @ n1"
     "\<forall>d' \<in> set (fst (copy_dims ?ds h)).
              \<exists>a. SampleValues d' = Some a \<and> length h \<le> a \<and> a < length (h @ n1)"
     "\<forall>ext. map (load_dim (h @ n1 @ ext)) (fst (copy_dims ?ds h)) = map (load_dim h) ?ds"
    using copy_dims_props[OF v(2)] by blast
  define dsC where "dsC = fst (copy_dims ?ds h)"
  define h2 where "h2 = (h @ n1) @ [DimArray dsC]"
  define ad where "ad = length (h @ n1)"
  have msrc: "mes_array h2 (CfgMeasures s) = mes_array h (CfgMeasures s)"
    unfolding h2_def using v(3) by (simp add: readers_append)
  let ?ms = "mes_array h (CfgMeasures s)"
  have v2: "\<forall>m \<in> set ?ms. valid_ref h2 (Aggregations m)"
    unfolding h2_def using v(4) by (simp add: valid_ref_append)
  obtain n3 where n3: "snd (copy_measures ?ms h2) = h2 @ n3"
     "\<forall>m' \<in> set (fst (copy_measures ?ms h2)).
              \<exists>a. Aggregations m' = Some a \<and> length h2 \<le> a \<and> a < length (h2 @ n3)"
     "\<forall>ext. map (load_mes (h2 @ n3 @ ext)) (fst (copy_measures ?ms h2)) = map (load_mes h2) ?ms"
    using copy_measures_props[OF v2] by blast
  define msC where "msC = fst (copy_measures ?ms h2)"
  define am where "am = length (h2 @ n3)"
  define h4 where "h4 = (h2 @ n3) @ [MesArray msC]"
  have ssrc: "skip_array h4 (CfgSkippedColumns s) = skip_array h (CfgSkippedColumns s)"
    unfolding h4_def h2_def using readers_append(4)[OF v(5), of "n1 @ [DimArray dsC] @ n3 @ [MesArray msC]"]
    by simp
  define sk where "sk = length h4"
  define h5 where "h5 = h4 @ [SkipArray (skip_array h (CfgSkippedColumns s))]"
  have h5_ext: "h5 = h @ (n1 @ [DimArray dsC] @ n3 @ [MesArray msC]
                      @ [SkipArray (skip_array h (CfgSkippedColumns s))])"
    by (simp add: h5_def h4_def h2_def)
  have v5: "valid_ref h5 (CfgCurrency s)"
    unfolding h5_ext using v(6) by (rule valid_ref_append)
  have cur_same: "currency_at h5 ca = currency_at h ca" if "CfgCurrency s = Some ca" for ca
    unfolding h5_ext using that v(6) by (intro structs_append) (simp add: valid_ref_def)
  have v5r: "\<forall>ca c. CfgCurrency s = Some ca \<and> currency_at h5 ca = Some c \<longrightarrow> valid_ref h5 (Rates c)"
    using cur_same v(7) unfolding h5_ext by (auto intro: valid_ref_append)
  obtain n6 where n6: "snd (copy_currency (CfgCurrency s) h5) = h5 @ n6"
     "\<forall>ext. load_currency (h5 @ n6 @ ext) (fst (copy_currency (CfgCurrency s) h5))
               = load_currency h5 (CfgCurrency s)"
     "\<forall>a. fst (copy_currency (CfgCurrency s) h5) = Some a \<longrightarrow>
               length h5 \<le> a \<and> a < length (h5 @ n6)
               \<and> (\<forall>ext. \<exists>cu r. currency_at (h5 @ n6 @ ext) a = Some cu \<and> Rates cu = Some r
                          \<and> length h5 \<le> r \<and> r < length (h5 @ n6))"
    using copy_currency_props[OF v5 v5r] by blast
  define cur where "cur = fst (copy_currency (CfgCurrency s) h5)"
  define r where "r = length (h5 @ n6)"
  define c where "c = \<lparr> CfgName = CfgName s, CfgVersion = CfgVersion s,
                                   CfgDescription = CfgDescription s, CfgDimensions = Some ad,
                                   CfgMeasures = Some am, CfgCurrency = cur,
                                   DiscoveredFrom = DiscoveredFrom s, DiscoveredAt = DiscoveredAt s,
                                   CfgSkippedColumns = Some sk, RefinedAt = [], RefinedBy = [] \<rparr>"
  define H where "H = (h5 @ n6) @ [ConfigObj c]"
  have cd: "copy_dims ?ds h = (dsC, h @ n1)" by (simp add: dsC_def n1(1)[symmetric])
  have cm: "copy_measures ?ms h2 = (msC, h2 @ n3)" by (simp add: msC_def n3(1)[symmetric])
  have cc: "copy_currency (CfgCurrency s) h5 = (cur, h5 @ n6)" by (simp add: cur_def n6(1)[symmetric])
  have dc: "deepCopyConfig h src = Some (r, H)"
    unfolding deepCopyConfig_def
    by (simp only: s option.case cd alloc_def Let_def prod.case h2_def[symmetric] ad_def[symmetric]
         msrc cm am_def[symmetric] h4_def[symmetric] ssrc sk_def[symmetric] h5_def[symmetric] cc
         r_def[symmetric] c_def[symmetric] H_def[symmetric])
  have H_h: "H = h @ (n1 @ [DimArray dsC] @ n3 @ [MesArray msC]
                      @ [SkipArray (skip_array h (CfgSkippedColumns s))] @ n6 @ [ConfigObj c])"
    by (simp add: H_def h5_ext)
  have H_1: "H = (h @ n1) @ DimArray dsC # (n3 @ [MesArray msC]
                      @ [SkipArray (skip_array h (CfgSkippedColumns s))] @ n6 @ [ConfigObj c])"
    by (simp add: H_h)
  have H_1e: "H = h @ n1 @ (DimArray dsC # n3 @ [MesArray msC]
                      @ [SkipArray (skip_array h (CfgSkippedColumns s))] @ n6 @ [ConfigObj c])"
    by (simp add: H_h)
  have H_3: "H = (h2 @ n3) @ MesArray msC # ([SkipArray (skip_array h (CfgSkippedColumns s))] @ n6 @ [ConfigObj c])"
    by (simp add: H_h h2_def)
  have H_3e: "H = h2 @ n3 @ (MesArray msC # [SkipArray (skip_array h (CfgSkippedColumns s))] @ n6 @ [ConfigObj c])"
    by (simp add: H_h h2_def)
  have H_4: "H = h4 @ SkipArray (skip_array h (CfgSkippedColumns s)) # (n6 @ [ConfigObj c])"
    by (simp add: H_def h5_def)
  have H_6: "H = (h5 @ n6) @ ConfigObj c # []" by (simp add: H_def)
  have H_6e: "H = h5 @ n6 @ [ConfigObj c]" by (simp add: H_def)
  have "obj_at H r = Some (ConfigObj c)" unfolding H_6 r_def by (rule obj_at_new)
  then have cr: "config_at H r = Some c" by (simp add: config_at_def)
  have oad: "obj_at H ad = Some (DimArray dsC)" unfolding H_1 ad_def by (rule obj_at_new)
  have oam: "obj_at H am = Some (MesArray msC)" unfolding H_3 am_def by (rule obj_at_new)
  have osk: "obj_at H sk = Some (SkipArray (skip_array h (CfgSkippedColumns s)))"
    unfolding H_4 sk_def by (rule obj_at_new)
  have ld: "map (load_dim H) dsC = map (load_dim h) ?ds"
    unfolding H_1e dsC_def using n1(3) by simp
  have lm: "map (load_mes H) msC = map (load_mes h) ?ms"
  proof -
    have "map (load_mes H) msC = map (load_mes h2) ?ms" unfolding H_3e msC_def using n3(3) by simp
    also have "\<dots> = map (load_mes h) ?ms"
      unfolding h2_def using v(4) by (auto simp: load_mes_append)
    finally show ?thesis .
  qed
  have lc: "load_currency H cur = load_currency h (CfgCurrency s)"
  proof -
    have "load_currency H cur = load_currency h5 (CfgCurrency s)"
      unfolding H_6e cur_def using n6(2) by simp
    also have "\<dots> = load_currency h (CfgCurrency s)"
      unfolding h5_ext using v(6,7) by (rule load_currency_append)
    finally show ?thesis .
  qed
  have content_eq: "content = \<lparr> CfgName = CfgName s, CfgVersion = CfgVersion s, CfgDescription = CfgDescription s,
                 CfgDimensions = map (load_dim h) ?ds,
                 CfgMeasures = map (load_mes h) ?ms,
                 CfgCurrency = load_currency h (CfgCurrency s),
                 DiscoveredFrom = DiscoveredFrom s, DiscoveredAt = DiscoveredAt s,
                 CfgSkippedColumns = skip_array h (CfgSkippedColumns s),
                 RefinedAt = RefinedAt s, RefinedBy = RefinedBy s \<rparr>"
    using content s by (simp add: load_config_def)
  have load: "load_config H r = Some (content\<lparr> RefinedAt := [], RefinedBy := [] \<rparr>)"
    unfolding content_eq
    by (simp add: load_config_def cr c_def dim_array_def mes_array_def skip_array_def oad oam osk ld lm
          lc[unfolded cur_def] cur_def)
  have lenH: "length H = Suc r" by (simp add: H_def r_def)
  have len_chain: "length h \<le> ad" "ad < am" "am < sk" "sk < r"
    "length (h @ n1) = ad" "length h2 = Suc ad" "length (h2 @ n3) = am" "length h4 = sk"
    "length h5 = Suc sk" "length h5 \<le> r"
    by (simp_all add: ad_def am_def sk_def r_def h2_def h4_def h5_def)
  have refs_d: "n \<in> set_option (SampleValues d) \<Longrightarrow> length h \<le> n \<and> n < length H" if "d \<in> set dsC" for d n
    using n1(2)[rule_format, of d] that len_chain lenH unfolding dsC_def by auto
  have refs_m: "n \<in> set_option (Aggregations m) \<Longrightarrow> length h \<le> n \<and> n < length H" if "m \<in> set msC" for m n
    using n3(2)[rule_format, of m] that len_chain lenH unfolding msC_def by auto
  have refs_c: "length h \<le> a \<and> a < length H
                \<and> (\<exists>cu rr. currency_at H a = Some cu \<and> Rates cu = Some rr \<and> length h \<le> rr \<and> rr < length H)"
    if "cur = Some a" for a
  proof -
    from n6(3)[rule_format, of a] that
    have a: "length h5 \<le> a" "a < length (h5 @ n6)"
      and ex: "\<exists>cu rr. currency_at (h5 @ n6 @ [ConfigObj c]) a = Some cu \<and> Rates cu = Some rr
                          \<and> length h5 \<le> rr \<and> rr < length (h5 @ n6)"
      unfolding cur_def by blast+
    show ?thesis using a ex len_chain lenH unfolding H_6e[symmetric] r_def[symmetric] by auto
  qed
  have fresh: "\<forall>a \<in> config_refs H r. length h \<le> a \<and> a < length H"
  proof
    fix a assume "a \<in> config_refs H r"
    then consider "a = r" | "a = ad" | d where "d \<in> set dsC" "a \<in> set_option (SampleValues d)"
      | "a = am" | m where "m \<in> set msC" "a \<in> set_option (Aggregations m)"
      | "a = sk" | "cur = Some a"
      | ca cu where "cur = Some ca" "currency_at H ca = Some cu" "Rates cu = Some a"
      unfolding config_refs_def
      by (auto simp: cr c_def dim_array_def mes_array_def oad oam split: option.splits)
    then show "length h \<le> a \<and> a < length H"
    proof cases
      case 1 then show ?thesis using len_chain lenH by simp
    next
      case 2 then show ?thesis using len_chain lenH by simp
    next
      case 3 then show ?thesis using refs_d by blast
    next
      case 4 then show ?thesis using len_chain lenH by simp
    next
      case 5 then show ?thesis using refs_m by blast
    next
      case 6 then show ?thesis using len_chain lenH by simp
    next
      case 7 then show ?thesis using refs_c by blast
    next
      case 8 then show ?thesis using refs_c[of ca] by auto
    qed
  qed
  have "copy_inv (length h) H r (content\<lparr> RefinedAt := [], RefinedBy := [] \<rparr>)"
    unfolding copy_inv_def
    using cr oad oam load fresh by (intro exI[of _ c] exI[of _ ad] exI[of _ am] exI[of _ dsC] exI[of _ msC])
      (simp add: c_def)
  with dc H_h show ?thesis by blast
qed


subsection \<open>Writing to the copy\<close>

lemma config_at_obj: "config_at h r = Some c \<Longrightarrow> obj_at h r = Some (ConfigObj c)"
  by (auto simp: config_at_def split: option.splits obj.splits)

lemma obj_at_length: "obj_at h a = Some x \<Longrightarrow> a < length h"
  by (auto simp: obj_at_def split: if_splits)

lemma copy_inv_config:
  assumes inv: "copy_inv n H r v" and c: "config_at H r = Some c"
    and same: "CfgDimensions c' = CfgDimensions c" "CfgMeasures c' = CfgMeasures c"
              "CfgCurrency c' = CfgCurrency c" "CfgSkippedColumns c' = CfgSkippedColumns c"
  shows "copy_inv n (H[r := ConfigObj c']) r
           (v\<lparr> CfgName := CfgName c', CfgVersion := CfgVersion c', CfgDescription := CfgDescription c',
               DiscoveredFrom := DiscoveredFrom c', DiscoveredAt := DiscoveredAt c',
               RefinedAt := RefinedAt c', RefinedBy := RefinedBy c' \<rparr>)"
    and "take n (H[r := ConfigObj c']) = take n H"
proof -
  let ?H = "H[r := ConfigObj c']"
  note ru = readers_update_config[OF config_at_obj[OF c], of c']
  from inv c obtain ad am dsH msH where
      ad: "CfgDimensions c = Some ad" and am: "CfgMeasures c = Some am"
    and oad: "obj_at H ad = Some (DimArray dsH)" and oam: "obj_at H am = Some (MesArray msH)"
    and load: "load_config H r = Some v"
    and fresh: "\<forall>a \<in> config_refs H r. n \<le> a \<and> a < length H"
    unfolding copy_inv_def by auto
  have ld: "load_dim ?H = load_dim H" by (rule ext) (simp add: load_dim_def ru)
  have lm: "load_mes ?H = load_mes H" by (rule ext) (simp add: load_mes_def ru)
  have lc: "load_currency ?H = load_currency H" by (rule ext) (simp add: load_currency_def ru cong: option.case_cong)
  have ne: "ad \<noteq> r" "am \<noteq> r" using oad oam config_at_obj[OF c] by auto
  have o': "obj_at ?H ad = Some (DimArray dsH)" "obj_at ?H am = Some (MesArray msH)"
    using oad oam ne by (simp_all add: obj_at_update)
  have c': "config_at ?H r = Some c'" by (simp add: ru)
  have load': "load_config ?H r = Some (v\<lparr> CfgName := CfgName c', CfgVersion := CfgVersion c',
               CfgDescription := CfgDescription c',
               DiscoveredFrom := DiscoveredFrom c', DiscoveredAt := DiscoveredAt c',
               RefinedAt := RefinedAt c', RefinedBy := RefinedBy c' \<rparr>)"
    using load c by (auto simp: load_config_def c' ld lm lc ru same)
  have refs: "config_refs ?H r = config_refs H r"
    by (simp add: config_refs_def c c' ru same cong: option.case_cong)
  have "n \<le> r" using fresh by (simp add: config_refs_def c)
  then show "take n ?H = take n H" by simp
  show "copy_inv n ?H r (v\<lparr> CfgName := CfgName c', CfgVersion := CfgVersion c',
               CfgDescription := CfgDescription c',
               DiscoveredFrom := DiscoveredFrom c', DiscoveredAt := DiscoveredAt c',
               RefinedAt := RefinedAt c', RefinedBy := RefinedBy c' \<rparr>)"
    unfolding copy_inv_def using c' o' load' fresh refs ad am same
    by (intro exI[of _ c'] exI[of _ ad] exI[of _ am] exI[of _ dsH] exI[of _ msH]) simp
qed

lemma copy_inv_dims:
  assumes inv: "copy_inv n H r v"
    and keep: "\<And>d. SampleValues (f d) = SampleValues d"
    and comm: "\<And>h d. load_dim h (f d) = g (load_dim h d)"
  shows "copy_inv n (modify_dims r f H) r (v\<lparr> CfgDimensions := map g (CfgDimensions v) \<rparr>)"
    and "take n (modify_dims r f H) = take n H"
proof -
  from inv obtain c ad am dsH msH where
      c: "config_at H r = Some c"
    and ad: "CfgDimensions c = Some ad" and am: "CfgMeasures c = Some am"
    and oad: "obj_at H ad = Some (DimArray dsH)" and oam: "obj_at H am = Some (MesArray msH)"
    and load: "load_config H r = Some v"
    and fresh: "\<forall>a \<in> config_refs H r. n \<le> a \<and> a < length H"
    unfolding copy_inv_def by auto
  let ?H = "H[ad := DimArray (map f dsH)]"
  have eq: "modify_dims r f H = ?H" using c ad oad by (rule modify_dims_eq)
  note ru = readers_update_dims[OF oad, of "map f dsH"]
  have ld: "load_dim ?H = load_dim H" by (rule ext) (simp add: load_dim_def ru)
  have lm: "load_mes ?H = load_mes H" by (rule ext) (simp add: load_mes_def ru)
  have lc: "load_currency ?H = load_currency H" by (rule ext) (simp add: load_currency_def ru cong: option.case_cong)
  have ne: "am \<noteq> ad" using oad oam by auto
  have o': "obj_at ?H ad = Some (DimArray (map f dsH))" "obj_at ?H am = Some (MesArray msH)"
    using oad oam ne obj_at_length[OF oad] by (simp_all add: obj_at_update)
  have c': "config_at ?H r = Some c" by (simp add: ru c)
  have da: "dim_array H (Some ad) = dsH" using oad by (simp add: dim_array_def)
  have load': "load_config ?H r = Some (v\<lparr> CfgDimensions := map g (CfgDimensions v) \<rparr>)"
    using load c by (auto simp: load_config_def c' ld lm lc ru ad da comm)
  have refs: "config_refs ?H r = config_refs H r"
    by (simp add: config_refs_def c c' ru ad da keep cong: option.case_cong)
  have "n \<le> ad" using fresh by (simp add: config_refs_def c ad)
  then show "take n (modify_dims r f H) = take n H" by (simp add: eq)
  show "copy_inv n (modify_dims r f H) r (v\<lparr> CfgDimensions := map g (CfgDimensions v) \<rparr>)"
    unfolding copy_inv_def eq using c' o' load' fresh refs ad am
    by (intro exI[of _ c] exI[of _ ad] exI[of _ am] exI[of _ "map f dsH"] exI[of _ msH]) simp
qed

lemma copy_inv_measures:
  assumes inv: "copy_inv n H r v"
    and keep: "\<And>m. Aggregations (f m) = Aggregations m"
    and comm: "\<And>h m. load_mes h (f m) = g (load_mes h m)"
  shows "copy_inv n (modify_measures r f H) r (v\<lparr> CfgMeasures := map g (CfgMeasures v) \<rparr>)"
    and "take n (modify_measures r f H) = take n H"
proof -
  from inv obtain c ad am dsH msH where
      c: "config_at H r = Some c"
    and ad: "CfgDimensions c = Some ad" and am: "CfgMeasures c = Some am"
    and oad: "obj_at H ad = Some (DimArray dsH)" and oam: "obj_at H am = Some (MesArray msH)"
    and load: "load_config H r = Some v"
    and fresh: "\<forall>a \<in> config_refs H r. n \<le> a \<and> a < length H"
    unfolding copy_inv_def by auto
  let ?H = "H[am := MesArray (map f msH)]"
  have eq: "modify_measures r f H = ?H" using c am oam by (rule modify_measures_eq)
  note ru = readers_update_measures[OF oam, of "map f msH"]
  have ld: "load_dim ?H = load_dim H" by (rule ext) (simp add: load_dim_def ru)
  have lm: "load_mes ?H = load_mes H" by (rule ext) (simp add: load_mes_def ru)
  have lc: "load_currency ?H = load_currency H" by (rule ext) (simp add: load_currency_def ru cong: option.case_cong)
  have ne: "am \<noteq> ad" using oad oam by auto
  have o': "obj_at ?H ad = Some (DimArray dsH)" "obj_at ?H am = Some (MesArray (map f msH))"
    using oad oam ne obj_at_length[OF oam] by (simp_all add: obj_at_update)
  have c': "config_at ?H r = Some c" by (simp add: ru c)
  have ma: "mes_array H (Some am) = msH" using oam by (simp add: mes_array_def)
  have load': "load_config ?H r = Some (v\<lparr> CfgMeasures := map g (CfgMeasures v) \<rparr>)"
    using load c by (auto simp: load_config_def c' ld lm lc ru am ma comm)
  have refs: "config_refs ?H r = config_refs H r"
    by (simp add: config_refs_def c c' ru am ma keep cong: option.case_cong)
  have "n \<le> am" using fresh by (simp add: config_refs_def c am)
  then show "take n (modify_measures r f H) = take n H" by (simp add: eq)
  show "copy_inv n (modify_measures r f H) r (v\<lparr> CfgMeasures := map g (CfgMeasures v) \<rparr>)"
    unfolding copy_inv_def eq using c' o' load' fresh refs ad am
    by (intro exI[of _ c] exI[of _ ad] exI[of _ am] exI[of _ dsH] exI[of _ "map f msH"]) simp
qed


lemma copy_inv_scalars:
  assumes inv: "copy_inv n H r v"
  shows "copy_inv n (modify_config r (\<lambda>c. c\<lparr> CfgName := x \<rparr>) H) r (v\<lparr> CfgName := x \<rparr>)"
    and "take n (modify_config r (\<lambda>c. c\<lparr> CfgName := x \<rparr>) H) = take n H"
    and "copy_inv n (modify_config r (\<lambda>c. c\<lparr> CfgDescription := x \<rparr>) H) r (v\<lparr> CfgDescription := x \<rparr>)"
    and "take n (modify_config r (\<lambda>c. c\<lparr> CfgDescription := x \<rparr>) H) = take n H"
    and "copy_inv n (modify_config r (\<lambda>c. c\<lparr> RefinedAt := x, RefinedBy := y \<rparr>) H) r
           (v\<lparr> RefinedAt := x, RefinedBy := y \<rparr>)"
    and "take n (modify_config r (\<lambda>c. c\<lparr> RefinedAt := x, RefinedBy := y \<rparr>) H) = take n H"
proof -
  from inv obtain c where c: "config_at H r = Some c" and load: "load_config H r = Some v"
    unfolding copy_inv_def by auto
  have v: "CfgName v = CfgName c" "CfgVersion v = CfgVersion c" "CfgDescription v = CfgDescription c"
    "DiscoveredFrom v = DiscoveredFrom c" "DiscoveredAt v = DiscoveredAt c"
    "RefinedAt v = RefinedAt c" "RefinedBy v = RefinedBy c"
    using load c by (auto simp: load_config_def)
  note eq = modify_config_eq[OF c]
  show "copy_inv n (modify_config r (\<lambda>c. c\<lparr> CfgName := x \<rparr>) H) r (v\<lparr> CfgName := x \<rparr>)"
    using copy_inv_config(1)[OF inv c, of "c\<lparr> CfgName := x \<rparr>"] by (simp add: eq v[symmetric])
  show "take n (modify_config r (\<lambda>c. c\<lparr> CfgName := x \<rparr>) H) = take n H"
    using copy_inv_config(2)[OF inv c, of "c\<lparr> CfgName := x \<rparr>"] by (simp add: eq)
  show "copy_inv n (modify_config r (\<lambda>c. c\<lparr> CfgDescription := x \<rparr>) H) r (v\<lparr> CfgDescription := x \<rparr>)"
    using copy_inv_config(1)[OF inv c, of "c\<lparr> CfgDescription := x \<rparr>"] by (simp add: eq v[symmetric])
  show "take n (modify_config r (\<lambda>c. c\<lparr> CfgDescription := x \<rparr>) H) = take n H"
    using copy_inv_config(2)[OF inv c, of "c\<lparr> CfgDescription := x \<rparr>"] by (simp add: eq)
  show "copy_inv n (modify_config r (\<lambda>c. c\<lparr> RefinedAt := x, RefinedBy := y \<rparr>) H) r
           (v\<lparr> RefinedAt := x, RefinedBy := y \<rparr>)"
    using copy_inv_config(1)[OF inv c, of "c\<lparr> RefinedAt := x, RefinedBy := y \<rparr>"]
    by (simp add: eq v[symmetric])
  show "take n (modify_config r (\<lambda>c. c\<lparr> RefinedAt := x, RefinedBy := y \<rparr>) H) = take n H"
    using copy_inv_config(2)[OF inv c, of "c\<lparr> RefinedAt := x, RefinedBy := y \<rparr>"] by (simp add: eq)
qed

lemma enrich_dim_load:
  "SampleValues (enrich_dim em d) = SampleValues d"
  "load_dim h (enrich_dim em d) = enrich_dim em (load_dim h d)"
  by (simp_all add: enrich_dim_def load_dim_def Let_def split: option.splits)

lemma enrich_mes_load:
  "Aggregations (enrich_mes em m) = Aggregations m"
  "load_mes h (enrich_mes em m) = enrich_mes em (load_mes h m)"
  by (simp_all add: enrich_mes_def load_mes_def Let_def split: option.splits)

lemma suggest_parent_load:
  "SampleValues (suggest_parent hs d) = SampleValues d"
  "load_dim h (suggest_parent hs d) = suggest_parent hs (load_dim h d)"
  by (simp_all add: suggest_parent_def load_dim_def)

lemma copy_inv_hierarchies:
  assumes "copy_inv n H r v"
  shows "copy_inv n (fold (\<lambda>hs h. modify_dims r (suggest_parent hs) h) hss H) r
           (v\<lparr> CfgDimensions := fold (\<lambda>hs ds. map (suggest_parent hs) ds) hss (CfgDimensions v) \<rparr>)
         \<and> take n (fold (\<lambda>hs h. modify_dims r (suggest_parent hs) h) hss H) = take n H"
  using assms
proof (induction hss arbitrary: H v)
  case Nil
  then show ?case by simp
next
  case (Cons hs hss)
  note step = copy_inv_dims[OF Cons.prems, of "suggest_parent hs" "suggest_parent hs",
                OF suggest_parent_load]
  from Cons.IH[OF step(1)] step(2) show ?case by simp
qed

lemma applyEnrichments_copy:
  assumes dc: "deepCopyConfig h d = Some (r, H)"
      and inv: "copy_inv n H r (content\<lparr> RefinedAt := [], RefinedBy := [] \<rparr>)"
  shows "\<exists>H'. applyEnrichments env h d e = Some (r, H')
           \<and> copy_inv n H' r (merge_enrichments (timeNow env) content e)
           \<and> take n H' = take n H"
proof -
  let ?v1 = "content\<lparr> RefinedAt := [], RefinedBy := [] \<rparr>"
  define h2 where "h2 = (if DatasetName e \<noteq> []
                    then modify_config r (\<lambda>c. c\<lparr> CfgName := DatasetName e \<rparr>) H else H)"
  define v2 where "v2 = ?v1\<lparr> CfgName := (if DatasetName e \<noteq> [] then DatasetName e else CfgName content) \<rparr>"
  have i2: "copy_inv n h2 r v2" "take n h2 = take n H"
    using copy_inv_scalars(1,2)[OF inv, of "DatasetName e"] inv by (auto simp: h2_def v2_def)
  define h3 where "h3 = (if DatasetDescription e \<noteq> []
                    then modify_config r (\<lambda>c. c\<lparr> CfgDescription := DatasetDescription e \<rparr>) h2 else h2)"
  define v3 where "v3 = v2\<lparr> CfgDescription := (if DatasetDescription e \<noteq> [] then DatasetDescription e
                                                  else CfgDescription content) \<rparr>"
  have i3: "copy_inv n h3 r v3" "take n h3 = take n H"
    using copy_inv_scalars(3,4)[OF i2(1), of "DatasetDescription e"] i2 by (auto simp: h3_def v3_def v2_def)
  define em where "em = enrichMap_of (Enrichments e)"
  define h4 where "h4 = modify_dims r (enrich_dim em) h3"
  define v4 where "v4 = v3\<lparr> CfgDimensions := map (enrich_dim em) (CfgDimensions v3) \<rparr>"
  have i4: "copy_inv n h4 r v4" "take n h4 = take n H"
    using copy_inv_dims[OF i3(1), of "enrich_dim em" "enrich_dim em", OF enrich_dim_load] i3(2)
    by (simp_all add: h4_def v4_def)
  define h5 where "h5 = modify_measures r (enrich_mes em) h4"
  define v5 where "v5 = v4\<lparr> CfgMeasures := map (enrich_mes em) (CfgMeasures v4) \<rparr>"
  have i5: "copy_inv n h5 r v5" "take n h5 = take n H"
    using copy_inv_measures[OF i4(1), of "enrich_mes em" "enrich_mes em", OF enrich_mes_load] i4(2)
    by (simp_all add: h5_def v5_def)
  define h6 where "h6 = fold (\<lambda>hs h. modify_dims r (suggest_parent hs) h) (SuggestedHierarchies e) h5"
  define v6 where "v6 = v5\<lparr> CfgDimensions := fold (\<lambda>hs ds. map (suggest_parent hs) ds)
                                                  (SuggestedHierarchies e) (CfgDimensions v5) \<rparr>"
  have i6: "copy_inv n h6 r v6" "take n h6 = take n H"
    using copy_inv_hierarchies[OF i5(1), of "SuggestedHierarchies e"] i5(2)
    by (simp_all add: h6_def v6_def)
  define h7 where "h7 = modify_config r (\<lambda>c. c\<lparr> RefinedAt := timeNow env, RefinedBy := ''gemini'' \<rparr>) h6"
  have i7: "copy_inv n h7 r (v6\<lparr> RefinedAt := timeNow env, RefinedBy := ''gemini'' \<rparr>)" "take n h7 = take n H"
    using copy_inv_scalars(5,6)[OF i6(1), where x = "timeNow env" and y = "''gemini''"] i6(2) by (simp_all add: h7_def)
  have v: "v6\<lparr> RefinedAt := timeNow env, RefinedBy := ''gemini'' \<rparr> = merge_enrichments (timeNow env) content e"
    by (simp add: merge_enrichments_def v6_def v5_def v4_def v3_def v2_def em_def)
  have "applyEnrichments env h d e = Some (r, h7)"
    by (simp add: applyEnrichments_def dc Let_def h7_def h6_def h5_def h4_def h3_def h2_def em_def)
  with i7 v show ?thesis by auto
qed

subsection \<open>The draft after the call\<close>

lemma closed_append:
  assumes cl: "closed_config h d"
  shows "load_config (h @ xs) d = load_config h d"
    and "config_refs (h @ xs) d = config_refs h d"
proof -
  have d: "d < length h" using cl by (auto simp: closed_config_def config_refs_def split: option.splits)
  have ca: "config_at (h @ xs) d = config_at h d" using d by (rule structs_append)
  show "load_config (h @ xs) d = load_config h d"
  proof (cases "config_at h d")
    case None
    then show ?thesis by (simp add: load_config_def ca)
  next
    case (Some s)
    note v = closed_configD[OF cl Some]
    have ld: "map (load_dim (h @ xs)) (dim_array h (CfgDimensions s)) = map (load_dim h) (dim_array h (CfgDimensions s))"
      using v(2) by (auto simp: load_dim_append)
    have lm: "map (load_mes (h @ xs)) (mes_array h (CfgMeasures s)) = map (load_mes h) (mes_array h (CfgMeasures s))"
      using v(4) by (auto simp: load_mes_append)
    have lc: "load_currency (h @ xs) (CfgCurrency s) = load_currency h (CfgCurrency s)"
      using v(6,7) by (rule load_currency_append)
    show ?thesis
      by (simp add: load_config_def ca Some readers_append[OF v(1)] readers_append[OF v(3)]
            readers_append[OF v(5)] ld lm lc)
  qed
  show "config_refs (h @ xs) d = config_refs h d"
  proof (cases "config_at h d")
    case None
    then show ?thesis by (simp add: config_refs_def ca)
  next
    case (Some s)
    note v = closed_configD[OF cl Some]
    have cu: "currency_at (h @ xs) a = currency_at h a" if "CfgCurrency s = Some a" for a
      using v(6) that by (intro structs_append) (simp add: valid_ref_def)
    show ?thesis
      using cu by (simp add: config_refs_def ca Some readers_append[OF v(1)] readers_append[OF v(3)]
            cong: option.case_cong split: option.splits)
  qed
qed

subsection \<open>The call\<close>

lemma demo_draft_content: "load_config demo_store demo_draft = Some demo_content"
  by code_simp

lemma demo_draft_closed: "closed_config demo_store demo_draft"
  by code_simp

lemma demo_refine_result:
  "fst (Refine demo_renv demo_store (Some demo_draft) demo_refine_cfg) = (Some 15, None)"
  by code_simp

lemma demo_merge: "merge_enrichments (timeNow demo_renv) demo_content demo_enrichment = demo_refined"
  by code_simp

text \<open>
  Claim C9. For every draft schema in a store without dangling references, \<open>Refine\<close>
  writes to nothing that was allocated before the call: the store it leaves extends the
  store it was given, so the draft, with its nested slices and its rate map, reads as
  before. With an API key, on a failure of the external call or of the parsing of the
  response it returns the pointer to the draft together with an error and leaves the
  store as it was; on success it returns no error and a pointer to a new \<open>Config\<close> whose
  contents are the draft's with the enrichments merged in, and every address the new
  \<open>Config\<close> leads to was allocated during the call, so it shares nothing with the draft.
\<close>

theorem Refine_deep_copy_isolation:
  assumes content: "load_config h d = Some content" and closed: "closed_config h d"
    and run: "Refine env h (Some d) cfg = ((res, err), h')"
  shows "load_config h' d = Some content \<and> config_refs h' d = config_refs h d
       \<and> take (length h) h' = h
       \<and> (APIKey cfg \<noteq> [] \<longrightarrow>
           (case callRefineGemini env (refinePrompt env content) (with_defaults cfg) of
              Inl e \<Rightarrow> res = Some d \<and> err = Some (''smart refine AI call failed: '' @ e) \<and> h' = h
            | Inr response \<Rightarrow>
                (case parseRefineResponse env response of
                   Inl e \<Rightarrow> res = Some d \<and> err = Some (''smart refine parse failed: '' @ e) \<and> h' = h
                 | Inr enrichment \<Rightarrow>
                     err = None
                     \<and> (\<exists>r. res = Some r
                            \<and> load_config h' r = Some (merge_enrichments (timeNow env) content enrichment)
                            \<and> config_refs h' r \<inter> config_refs h' d = {}
                            \<and> (\<forall>a \<in> config_refs h' r. length h \<le> a \<and> a < length h')))))"
proof -
  have wd: "with_defaults cfg = (let cfg1 = (if Model cfg = [] then cfg\<lparr> Model := ''gemini-2.5-flash-lite'' \<rparr> else cfg);
                cfg2 = (if Endpoint cfg1 = []
                        then cfg1\<lparr> Endpoint := ''https://generativelanguage.googleapis.com/v1beta/models'' \<rparr>
                        else cfg1) in cfg2)"
    by (simp add: with_defaults_def Let_def)
  have frame: "load_config H d = Some content \<and> config_refs H d = config_refs h d \<and> take (length h) H = h"
    if "take (length h) H = h" for H
  proof -
    have "H = h @ drop (length h) H" using that append_take_drop_id[of "length h" H] by simp
    then show ?thesis using closed_append[OF closed, of "drop (length h) H"] content that by simp
  qed
  from content obtain s where s: "config_at h d = Some s"
    by (auto simp: load_config_def split: option.splits)
  show ?thesis
  proof (cases "APIKey cfg = []")
    case True
    then have "h' = h" using run by (simp add: Refine_def)
    then show ?thesis using frame[of h] True by simp
  next
    case key: False
    let ?call = "callRefineGemini env (refinePrompt env content) (with_defaults cfg)"
    show ?thesis
    proof (cases ?call)
      case (Inl e)
      then have "res = Some d \<and> err = Some (''smart refine AI call failed: '' @ e) \<and> h' = h"
        using run key by (simp add: Refine_def content wd Let_def)
      then show ?thesis using frame[of h] Inl by simp
    next
      case call: (Inr response)
      show ?thesis
      proof (cases "parseRefineResponse env response")
        case (Inl e)
        then have "res = Some d \<and> err = Some (''smart refine parse failed: '' @ e) \<and> h' = h"
          using run key call by (simp add: Refine_def content wd Let_def)
        then show ?thesis using frame[of h] Inl call by simp
      next
        case parse: (Inr enrichment)
        from deepCopyConfig_copy[OF s closed content] obtain r news where
            dc: "deepCopyConfig h d = Some (r, h @ news)"
          and inv: "copy_inv (length h) (h @ news) r (content\<lparr> RefinedAt := [], RefinedBy := [] \<rparr>)"
          by blast
        from applyEnrichments_copy[OF dc inv, of env enrichment] obtain H' where
            ap: "applyEnrichments env h d enrichment = Some (r, H')"
          and inv': "copy_inv (length h) H' r (merge_enrichments (timeNow env) content enrichment)"
          and pre: "take (length h) H' = h"
          by auto
        have out: "res = Some r" "err = None" "h' = H'"
          using run key call parse ap by (simp_all add: Refine_def content wd Let_def)
        have fr: "load_config H' d = Some content" "config_refs H' d = config_refs h d"
          using frame[OF pre] by simp_all
        have load: "load_config H' r = Some (merge_enrichments (timeNow env) content enrichment)"
          and fresh: "\<forall>a \<in> config_refs H' r. length h \<le> a \<and> a < length H'"
          using inv' unfolding copy_inv_def by auto
        have old: "\<forall>a \<in> config_refs h d. a < length h" using closed by (simp add: closed_config_def)
        have disj: "config_refs H' r \<inter> config_refs H' d = {}"
          unfolding fr(2) using fresh old by fastforce
        show ?thesis
          using fr pre load fresh disj out call parse by simp
      qed
    qed
  qed
qed

theorem Refine_deep_copy_isolation_witness:
  "fst (Refine demo_renv demo_store (Some demo_draft) demo_refine_cfg) = (Some 15, None)
   \<and> load_config (snd (Refine demo_renv demo_store (Some demo_draft) demo_refine_cfg)) demo_draft
       = Some demo_content
   \<and> load_config (snd (Refine demo_renv demo_store (Some demo_draft) demo_refine_cfg)) 15
       = Some demo_refined"
proof -
  have run: "Refine demo_renv demo_store (Some demo_draft) demo_refine_cfg
               = ((Some 15, None), snd (Refine demo_renv demo_store (Some demo_draft) demo_refine_cfg))"
    by (simp add: prod_eq_iff demo_refine_result)
  have key: "APIKey demo_refine_cfg \<noteq> []" by (simp add: demo_refine_cfg_def)
  have call: "callRefineGemini demo_renv (refinePrompt demo_renv demo_content) (with_defaults demo_refine_cfg)
                = Inr ''{}''"
    by (simp add: demo_renv_def)
  have parse: "parseRefineResponse demo_renv ''{}'' = Inr demo_enrichment"
    by (simp add: demo_renv_def)
  show ?thesis
    using Refine_deep_copy_isolation[OF demo_draft_content demo_draft_closed run]
    by (simp add: key call parse demo_merge demo_refine_result)
qed

end
